theory Spec2Isabelle
  imports Main "HOL-Library.Word"
begin

section \<open>Objects, pointers and outcomes\<close>

text \<open>
  Objects live in typed heaps indexed by addresses. A \<open>std::shared_ptr\<close> argument is the
  address of an object, and an address that holds no object stands for the null pointer;
  a \<open>std::weak_ptr\<close> is an optional address (\<open>None\<close> is the empty weak pointer) whose
  \<open>lock()\<close> yields the address and the object only while the object is still in its heap,
  and the null pointer otherwise.
\<close>

type_synonym addr = nat
type_synonym weak_ptr = "addr option"

definition lock :: "(addr \<rightharpoonup> 'obj) \<Rightarrow> weak_ptr \<Rightarrow> (addr \<times> 'obj) option" where
  "lock heap p =
     (case p of
        None \<Rightarrow> None
      | Some a \<Rightarrow> (case heap a of None \<Rightarrow> None | Some obj \<Rightarrow> Some (a, obj)))"

text \<open>
  A call returns a value, throws a C++ exception, or dereferences a pointer to an object
  that is not there (undefined behaviour in C++, kept apart here so that no theorem speaks
  about it silently). The state reached is returned beside the outcome in every case:
  a throw does not undo the writes made before it.
\<close>

datatype exception = Runtime_error string | Invalid_argument string

datatype 'a outcome = Returned 'a | Threw exception | Undefined_behaviour

type_synonym rcl_ret_t = int

definition RCL_RET_OK :: rcl_ret_t where
  "RCL_RET_OK = 0"

section \<open>Quality of service\<close>

datatype rmw_qos_history_policy_t =
    RMW_QOS_POLICY_HISTORY_SYSTEM_DEFAULT
  | RMW_QOS_POLICY_HISTORY_KEEP_LAST
  | RMW_QOS_POLICY_HISTORY_KEEP_ALL
  | RMW_QOS_POLICY_HISTORY_UNKNOWN

datatype rmw_qos_durability_policy_t =
    RMW_QOS_POLICY_DURABILITY_SYSTEM_DEFAULT
  | RMW_QOS_POLICY_DURABILITY_TRANSIENT_LOCAL
  | RMW_QOS_POLICY_DURABILITY_VOLATILE
  | RMW_QOS_POLICY_DURABILITY_UNKNOWN

record rmw_qos_profile_t =
  history :: rmw_qos_history_policy_t
  depth :: "64 word"
  durability :: rmw_qos_durability_policy_t

record rcl_publisher_options_t =
  publisher_qos :: rmw_qos_profile_t

record rcl_subscription_options_t =
  subscription_qos :: rmw_qos_profile_t

datatype IntraProcessBufferType = SharedPtr | UniquePtr | CallbackDefault

section \<open>Entities, callback groups, nodes\<close>

text \<open>
  The callback an entity holds for the events executor is the pair handed to
  \<open>set_events_executor_callback\<close>: the executor and the function to call. The collector
  only ever passes \<open>(associated_executor_, &EventsExecutor::push_event)\<close> or
  \<open>(nullptr, nullptr)\<close>.
\<close>

datatype callback_fn = Push_event

type_synonym listener = "addr option \<times> callback_fn option"

text \<open>
  Modelled from the spec: \<open>set_events_executor_callback\<close> of subscriptions, services,
  clients and waitables is not among the sources. The spec gives every entity "a way to
  register a push-style callback with an executor ... [and] a way to clear that
  registration"; a record field holds the registered pair.
\<close>

record entity =
  listener :: listener

record subscription_base = entity +
  topic_name :: string
  subscription_event_handlers :: "addr list"
  use_intra_process :: bool
  intra_process_subscription_id :: "64 word"

record publisher_base =
  publisher_event_handlers :: "addr list"
  intra_process_is_enabled :: bool
  intra_process_publisher_id :: "64 word"

record callback_group =
  can_be_taken_from :: bool
  timer_ptrs :: "weak_ptr list"
  subscription_ptrs :: "weak_ptr list"
  service_ptrs :: "weak_ptr list"
  client_ptrs :: "weak_ptr list"
  waitable_ptrs :: "weak_ptr list"

record node_base =
  associated_with_executor :: bool
  callback_groups :: "weak_ptr list"
  default_callback_group :: addr
  notify_guard_condition :: addr

text \<open>
  Modelled from the spec: the intra-process manager is not among the sources. The spec
  describes it at its boundary as a "process-wide registry mapping numeric ids to local
  publishers/subscriptions" with \<open>add_publisher(pub) -> id\<close>,
  \<open>add_subscription(sub) -> id\<close> and \<open>get_subscription_by_id(id)\<close>. The ids are the
  \<open>uint64_t\<close> values the callers store.
\<close>

record intra_process_manager =
  next_unique_id :: "64 word"
  ipm_publishers :: "64 word \<rightharpoonup> addr"
  ipm_subscriptions :: "64 word \<rightharpoonup> addr"

definition ipm_add_publisher ::
  "addr \<Rightarrow> intra_process_manager \<Rightarrow> 64 word \<times> intra_process_manager" where
  "ipm_add_publisher publisher m =
     (next_unique_id m,
      m\<lparr>next_unique_id := next_unique_id m + 1,
        ipm_publishers := (ipm_publishers m)(next_unique_id m \<mapsto> publisher)\<rparr>)"

definition ipm_add_subscription ::
  "addr \<Rightarrow> intra_process_manager \<Rightarrow> 64 word \<times> intra_process_manager" where
  "ipm_add_subscription subscription m =
     (next_unique_id m,
      m\<lparr>next_unique_id := next_unique_id m + 1,
        ipm_subscriptions := (ipm_subscriptions m)(next_unique_id m \<mapsto> subscription)\<rparr>)"

definition get_subscription_intra_process ::
  "intra_process_manager \<Rightarrow> 64 word \<Rightarrow> addr option" where
  "get_subscription_intra_process m sid = ipm_subscriptions m sid"

text \<open>
  The guard condition of a node carries the callback bound by
  \<open>rcl_guard_condition_set_events_executor_callback\<close> (executor, function, waitable handle)
  and counts its triggers.
\<close>

type_synonym gc_callback = "addr option \<times> callback_fn option \<times> addr option"

record world =
  nodes :: "addr \<rightharpoonup> node_base"
  groups :: "addr \<rightharpoonup> callback_group"
  timers :: "addr \<rightharpoonup> unit"
  subscriptions :: "addr \<rightharpoonup> subscription_base"
  services :: "addr \<rightharpoonup> entity"
  clients :: "addr \<rightharpoonup> entity"
  waitables :: "addr \<rightharpoonup> entity"
  publishers :: "addr \<rightharpoonup> publisher_base"
  gc_callbacks :: "addr \<Rightarrow> gc_callback"
  gc_triggers :: "addr \<Rightarrow> nat"
  ipm :: intra_process_manager

section \<open>NodeTopics: creating publishers and subscriptions\<close>

text \<open>
  The factories are arguments of the source functions and are arguments here: each builds
  its object in the world and returns its address.
\<close>

record publisher_factory =
  create_typed_publisher ::
    "addr \<Rightarrow> string \<Rightarrow> rcl_publisher_options_t \<Rightarrow> world \<Rightarrow> addr \<times> world"

record subscription_factory =
  create_typed_subscription ::
    "addr \<Rightarrow> string \<Rightarrow> rcl_subscription_options_t \<Rightarrow> world \<Rightarrow> addr \<times> world"
  create_typed_subscription_intra_process ::
    "IntraProcessBufferType \<Rightarrow> string \<Rightarrow> rcl_subscription_options_t \<Rightarrow> world \<Rightarrow> addr \<times> world"

definition publisher_setup_intra_process :: "64 word \<Rightarrow> publisher_base \<Rightarrow> publisher_base" where
  "publisher_setup_intra_process pid pb =
     pb\<lparr>intra_process_publisher_id := pid, intra_process_is_enabled := True\<rparr>"

definition subscription_setup_intra_process ::
  "64 word \<Rightarrow> subscription_base \<Rightarrow> subscription_base" where
  "subscription_setup_intra_process sid sb =
     sb\<lparr>intra_process_subscription_id := sid, use_intra_process := True\<rparr>"

definition create_publisher ::
  "addr \<Rightarrow> string \<Rightarrow> publisher_factory \<Rightarrow> rcl_publisher_options_t \<Rightarrow> bool \<Rightarrow> world
    \<Rightarrow> addr outcome \<times> world" where
  "create_publisher node_base_ptr name factory publisher_options use_ipc w =
     (case create_typed_publisher factory node_base_ptr name publisher_options w of
        (publisher, w1) \<Rightarrow>
          if use_ipc then
            if history (publisher_qos publisher_options) = RMW_QOS_POLICY_HISTORY_KEEP_ALL then
              (Threw (Invalid_argument
                ''intraprocess communication is not allowed with keep all history qos policy''), w1)
            else if durability (publisher_qos publisher_options)
                      \<noteq> RMW_QOS_POLICY_DURABILITY_VOLATILE then
              (Threw (Invalid_argument
                ''intraprocess communication allowed only with volatile durability''), w1)
            else
              (case ipm_add_publisher publisher (ipm w1) of
                 (publisher_id, ipm1) \<Rightarrow>
                   (case publishers w1 publisher of
                      None \<Rightarrow> (Undefined_behaviour, w1\<lparr>ipm := ipm1\<rparr>)
                    | Some pb \<Rightarrow>
                        (Returned publisher,
                         w1\<lparr>ipm := ipm1,
                            publishers := (publishers w1)(publisher \<mapsto>
                              publisher_setup_intra_process publisher_id pb)\<rparr>)))
          else (Returned publisher, w1))"

definition create_subscription ::
  "addr \<Rightarrow> string \<Rightarrow> subscription_factory \<Rightarrow> rcl_subscription_options_t \<Rightarrow> bool
    \<Rightarrow> IntraProcessBufferType \<Rightarrow> world \<Rightarrow> addr outcome \<times> world" where
  "create_subscription node_base_ptr name factory subscription_options use_ipc buffer_type w =
     (case create_typed_subscription factory node_base_ptr name subscription_options w of
        (subscription, w1) \<Rightarrow>
          if use_ipc then
            if history (subscription_qos subscription_options) = RMW_QOS_POLICY_HISTORY_KEEP_ALL then
              (Threw (Invalid_argument
                ''intraprocess communication is not allowed with keep all history qos policy''), w1)
            else if history (subscription_qos subscription_options) = RMW_QOS_POLICY_HISTORY_KEEP_LAST
                    \<and> depth (subscription_qos subscription_options) = 0 then
              (Threw (Invalid_argument
                ''intraprocess communication is not allowed with keep last history and 0 depth qos policy''),
               w1)
            else if durability (subscription_qos subscription_options)
                      \<noteq> RMW_QOS_POLICY_DURABILITY_VOLATILE then
              (Threw (Invalid_argument
                ''intraprocess communication allowed only with volatile durability''), w1)
            else
              (case subscriptions w1 subscription of
                 None \<Rightarrow> (Undefined_behaviour, w1)
               | Some sb \<Rightarrow>
                   (case create_typed_subscription_intra_process factory buffer_type
                           (topic_name sb) subscription_options w1 of
                      (subscription_intra_process, w2) \<Rightarrow>
                        (case ipm_add_subscription subscription_intra_process (ipm w2) of
                           (subscription_id, ipm2) \<Rightarrow>
                             (case subscriptions w2 subscription of
                                None \<Rightarrow> (Undefined_behaviour, w2\<lparr>ipm := ipm2\<rparr>)
                              | Some sb2 \<Rightarrow>
                                  (Returned subscription,
                                   w2\<lparr>ipm := ipm2,
                                      subscriptions := (subscriptions w2)(subscription \<mapsto>
                                        subscription_setup_intra_process subscription_id sb2)\<rparr>)))))
          else (Returned subscription, w1))"

section \<open>NodeTopics: attaching publishers and subscriptions to a callback group\<close>

text \<open>
  Modelled from the spec: \<open>NodeBase::callback_group_in_node\<close> and the \<open>add_subscription\<close>
  and \<open>add_waitable\<close> members of the callback group are not among the sources. The spec
  says the assignment "fails if the named group does not belong to the owning unit" and
  that a group is "a logical bundle of entities ... iterable by entity kind": membership is
  looked up in the node's list of groups, and adding appends a weak pointer to the list of
  the entity's kind.
\<close>

definition callback_group_in_node :: "world \<Rightarrow> node_base \<Rightarrow> addr \<Rightarrow> bool" where
  "callback_group_in_node w nd g =
     list_ex (\<lambda>weak_group. map_option fst (lock (groups w) weak_group) = Some g)
       (callback_groups nd)"

definition group_add_subscription :: "addr \<Rightarrow> weak_ptr \<Rightarrow> world \<Rightarrow> world option" where
  "group_add_subscription g p w =
     (case groups w g of
        None \<Rightarrow> None
      | Some grp \<Rightarrow>
          Some (w\<lparr>groups := (groups w)(g \<mapsto> grp\<lparr>subscription_ptrs := subscription_ptrs grp @ [p]\<rparr>)\<rparr>))"

definition add_waitable :: "addr \<Rightarrow> weak_ptr \<Rightarrow> world \<Rightarrow> world option" where
  "add_waitable g p w =
     (case groups w g of
        None \<Rightarrow> None
      | Some grp \<Rightarrow>
          Some (w\<lparr>groups := (groups w)(g \<mapsto> grp\<lparr>waitable_ptrs := waitable_ptrs grp @ [p]\<rparr>)\<rparr>))"

fun add_event_handlers :: "addr \<Rightarrow> addr list \<Rightarrow> world \<Rightarrow> world option" where
  "add_event_handlers g [] w = Some w"
| "add_event_handlers g (event # events) w =
     (case add_waitable g (Some event) w of
        None \<Rightarrow> None
      | Some w' \<Rightarrow> add_event_handlers g events w')"

text \<open>
  \<open>rcl_trigger_guard_condition\<close> and \<open>rmw_get_error_string\<close> belong to the transport
  layer: the return code and the error text are supplied by the caller of the model.
\<close>

definition rcl_trigger_guard_condition :: "rcl_ret_t \<Rightarrow> addr \<Rightarrow> world \<Rightarrow> rcl_ret_t \<times> world" where
  "rcl_trigger_guard_condition ret gc w =
     (ret, if ret = RCL_RET_OK then w\<lparr>gc_triggers := (gc_triggers w)(gc := Suc (gc_triggers w gc))\<rparr>
           else w)"

definition add_publisher ::
  "rcl_ret_t \<Rightarrow> string \<Rightarrow> addr \<Rightarrow> addr \<Rightarrow> addr option \<Rightarrow> world \<Rightarrow> unit outcome \<times> world" where
  "add_publisher trigger_ret rmw_error_string node_base_ptr publisher callback_group w =
     (case nodes w node_base_ptr of
        None \<Rightarrow> (Undefined_behaviour, w)
      | Some nd \<Rightarrow>
          (case (case callback_group of
                   Some g \<Rightarrow>
                     if \<not> callback_group_in_node w nd g then
                       Inl (Runtime_error ''Cannot create publisher, callback group not in node.'')
                     else Inr g
                 | None \<Rightarrow> Inr (default_callback_group nd)) of
             Inl e \<Rightarrow> (Threw e, w)
           | Inr g \<Rightarrow>
               (case publishers w publisher of
                  None \<Rightarrow> (Undefined_behaviour, w)
                | Some pb \<Rightarrow>
                    (case add_event_handlers g (publisher_event_handlers pb) w of
                       None \<Rightarrow> (Undefined_behaviour, w)
                     | Some w1 \<Rightarrow>
                         (case rcl_trigger_guard_condition trigger_ret
                                 (notify_guard_condition nd) w1 of
                            (ret, w2) \<Rightarrow>
                              if ret \<noteq> RCL_RET_OK then
                                (Threw (Runtime_error
                                   (''Failed to notify wait set on publisher creation: ''
                                     @ rmw_error_string)), w2)
                              else (Returned (), w2))))))"

definition add_subscription ::
  "rcl_ret_t \<Rightarrow> string \<Rightarrow> addr \<Rightarrow> addr \<Rightarrow> addr option \<Rightarrow> bool \<Rightarrow> world
    \<Rightarrow> unit outcome \<times> world" where
  "add_subscription trigger_ret rmw_error_string node_base_ptr subscription callback_group use_ipc w =
     (case nodes w node_base_ptr of
        None \<Rightarrow> (Undefined_behaviour, w)
      | Some nd \<Rightarrow>
          (case (case callback_group of
                   Some g \<Rightarrow>
                     if \<not> callback_group_in_node w nd g then
                       Inl (Runtime_error ''Cannot create subscription, callback group not in node.'')
                     else Inr g
                 | None \<Rightarrow> Inr (default_callback_group nd)) of
             Inl e \<Rightarrow> (Threw e, w)
           | Inr g \<Rightarrow>
               (case group_add_subscription g (Some subscription) w of
                  None \<Rightarrow> (Undefined_behaviour, w)
                | Some w0 \<Rightarrow>
                    (case subscriptions w0 subscription of
                       None \<Rightarrow> (Undefined_behaviour, w0)
                     | Some sb \<Rightarrow>
                         (case add_event_handlers g (subscription_event_handlers sb) w0 of
                            None \<Rightarrow> (Undefined_behaviour, w0)
                          | Some w1 \<Rightarrow>
                              (case (if use_ipc then
                                       add_waitable g
                                         (get_subscription_intra_process (ipm w1)
                                            (intra_process_subscription_id sb)) w1
                                     else Some w1) of
                                 None \<Rightarrow> (Undefined_behaviour, w1)
                               | Some w2 \<Rightarrow>
                                   (case rcl_trigger_guard_condition trigger_ret
                                           (notify_guard_condition nd) w2 of
                                      (ret, w3) \<Rightarrow>
                                        if ret \<noteq> RCL_RET_OK then
                                          (Threw (Runtime_error
                                             (''Failed to notify wait set on subscription creation: ''
                                               @ rmw_error_string)), w3)
                                        else (Returned (), w3))))))))"

section \<open>The entities collector of the events executor\<close>

text \<open>
  Modelled from the spec: the timers manager is not among the sources. The spec says it
  "owns the set of registered timers" and names \<open>add_timer\<close>, \<open>remove_timer\<close> and
  \<open>clear_all\<close> at its boundary, so it is the set of the registered timers' addresses.
\<close>

type_synonym timers_manager_t = "addr set"

definition add_timer :: "addr \<Rightarrow> timers_manager_t \<Rightarrow> timers_manager_t" where
  "add_timer timer tm = insert timer tm"

definition remove_timer :: "addr \<Rightarrow> timers_manager_t \<Rightarrow> timers_manager_t" where
  "remove_timer timer tm = tm - {timer}"

definition clear_all :: "timers_manager_t \<Rightarrow> timers_manager_t" where
  "clear_all tm = {}"

record collector =
  collector_this :: addr
  associated_executor :: addr
  timers_manager :: timers_manager_t
  weak_nodes :: "weak_ptr list"

type_synonym cstate = "collector \<times> world"

text \<open>
  Modelled from the spec: \<open>set_events_executor_callback\<close> stores the pair on the entity at
  the given address (see the record \<open>entity\<close> above); it is the same for the four kinds.
\<close>

definition set_events_executor_callback ::
  "listener \<Rightarrow> addr \<Rightarrow> (addr \<rightharpoonup> 'a entity_scheme) \<Rightarrow> (addr \<rightharpoonup> 'a entity_scheme)" where
  "set_events_executor_callback l a heap =
     (case heap a of None \<Rightarrow> heap | Some e \<Rightarrow> heap(a \<mapsto> e\<lparr>listener := l\<rparr>))"

text \<open>
  Modelled from the spec: the \<open>find_..._ptrs_if\<close> members of the callback group are not
  among the sources; the spec makes a group "iterable by entity kind". The visitor is called
  on every entity of the list that is still alive, in order, until it answers true. Every
  visitor of the collector answers false, as its lambdas do.
\<close>

fun find_ptrs_if ::
  "('s \<Rightarrow> addr \<rightharpoonup> 'obj) \<Rightarrow> (addr \<Rightarrow> 's \<Rightarrow> bool \<times> 's) \<Rightarrow> weak_ptr list \<Rightarrow> 's
    \<Rightarrow> addr option \<times> 's" where
  "find_ptrs_if heap func [] s = (None, s)"
| "find_ptrs_if heap func (weak_ptr # rest) s =
     (case lock (heap s) weak_ptr of
        None \<Rightarrow> find_ptrs_if heap func rest s
      | Some (a, obj) \<Rightarrow>
          (case func a s of
             (True, s') \<Rightarrow> (Some a, s')
           | (False, s') \<Rightarrow> find_ptrs_if heap func rest s'))"

definition push_event_of :: "collector \<Rightarrow> listener" where
  "push_event_of c = (Some (associated_executor c), Some Push_event)"

text \<open>The body of the loop of \<open>set_entities_callbacks\<close>, for a group that passed the check.\<close>

definition set_group_callbacks :: "callback_group \<Rightarrow> cstate \<Rightarrow> cstate" where
  "set_group_callbacks grp s0 =
     (let s1 = snd (find_ptrs_if (\<lambda>(c, w). timers w)
                 (\<lambda>timer (c, w).
                    (False, (c\<lparr>timers_manager := add_timer timer (timers_manager c)\<rparr>, w)))
                 (timer_ptrs grp) s0);
          s2 = snd (find_ptrs_if (\<lambda>(c, w). subscriptions w)
                 (\<lambda>subscription (c, w).
                    (False, (c, w\<lparr>subscriptions :=
                       set_events_executor_callback (push_event_of c) subscription
                         (subscriptions w)\<rparr>)))
                 (subscription_ptrs grp) s1);
          s3 = snd (find_ptrs_if (\<lambda>(c, w). services w)
                 (\<lambda>service (c, w).
                    (False, (c, w\<lparr>services :=
                       set_events_executor_callback (push_event_of c) service (services w)\<rparr>)))
                 (service_ptrs grp) s2);
          s4 = snd (find_ptrs_if (\<lambda>(c, w). clients w)
                 (\<lambda>client (c, w).
                    (False, (c, w\<lparr>clients :=
                       set_events_executor_callback (push_event_of c) client (clients w)\<rparr>)))
                 (client_ptrs grp) s3)
      in snd (find_ptrs_if (\<lambda>(c, w). waitables w)
                 (\<lambda>waitable (c, w).
                    (False, (c, w\<lparr>waitables :=
                       set_events_executor_callback (push_event_of c) waitable (waitables w)\<rparr>)))
                 (waitable_ptrs grp) s4))"

fun set_entities_callbacks_groups :: "weak_ptr list \<Rightarrow> cstate \<Rightarrow> cstate" where
  "set_entities_callbacks_groups [] s = s"
| "set_entities_callbacks_groups (weak_group # rest) s =
     (case lock (groups (snd s)) weak_group of
        None \<Rightarrow> set_entities_callbacks_groups rest s
      | Some (g, grp) \<Rightarrow>
          if \<not> can_be_taken_from grp then set_entities_callbacks_groups rest s
          else set_entities_callbacks_groups rest (set_group_callbacks grp s))"

text \<open>
  \<open>set_entities_callbacks\<close> receives a shared pointer: both callers hold the node alive, and
  the branch for a missing node is never taken by them.
\<close>

definition set_entities_callbacks :: "addr \<Rightarrow> cstate \<Rightarrow> cstate" where
  "set_entities_callbacks node s =
     (case nodes (snd s) node of
        None \<Rightarrow> s
      | Some nd \<Rightarrow> set_entities_callbacks_groups (callback_groups nd) s)"

fun execute_nodes :: "weak_ptr list \<Rightarrow> cstate \<Rightarrow> cstate" where
  "execute_nodes [] s = s"
| "execute_nodes (weak_node # rest) s =
     (case lock (nodes (snd s)) weak_node of
        None \<Rightarrow> execute_nodes rest s
      | Some (node, nd) \<Rightarrow> execute_nodes rest (set_entities_callbacks node s))"

definition execute :: "collector \<Rightarrow> world \<Rightarrow> cstate" where
  "execute c w =
     execute_nodes (weak_nodes c) (c\<lparr>timers_manager := clear_all (timers_manager c)\<rparr>, w)"

text \<open>
  \<open>rcl_guard_condition_set_events_executor_callback\<close> belongs to the transport layer: its
  return code is supplied by the caller of the model, and the callback is stored when the
  code is \<open>RCL_RET_OK\<close>.
\<close>

definition rcl_guard_condition_set_events_executor_callback ::
  "rcl_ret_t \<Rightarrow> gc_callback \<Rightarrow> addr \<Rightarrow> world \<Rightarrow> rcl_ret_t \<times> world" where
  "rcl_guard_condition_set_events_executor_callback ret cb gc w =
     (ret, if ret = RCL_RET_OK then w\<lparr>gc_callbacks := (gc_callbacks w)(gc := cb)\<rparr> else w)"

definition add_node :: "rcl_ret_t \<Rightarrow> addr \<Rightarrow> collector \<Rightarrow> world \<Rightarrow> unit outcome \<times> cstate" where
  "add_node bind_ret node_ptr c w =
     (case nodes w node_ptr of
        None \<Rightarrow> (Undefined_behaviour, c, w)
      | Some nd \<Rightarrow>
          (let w1 = w\<lparr>nodes := (nodes w)(node_ptr \<mapsto> nd\<lparr>associated_with_executor := True\<rparr>)\<rparr>
           in if associated_with_executor nd then
                (Threw (Runtime_error ''Node has already been added to an executor.''), c, w1)
              else
                (case set_entities_callbacks node_ptr
                        (c\<lparr>weak_nodes := weak_nodes c @ [Some node_ptr]\<rparr>, w1) of
                   (c2, w2) \<Rightarrow>
                     (case rcl_guard_condition_set_events_executor_callback bind_ret
                             (Some (associated_executor c2), Some Push_event,
                              Some (collector_this c2))
                             (notify_guard_condition nd) w2 of
                        (ret, w3) \<Rightarrow>
                          if ret \<noteq> RCL_RET_OK then
                            (Threw (Runtime_error
                               ''Couldn't set node guard condition callback''), c2, w3)
                          else (Returned (), c2, w3)))))"

text \<open>The body of the unsetting loop of \<open>remove_node\<close>, for a group that passed the check.\<close>

definition unset_group_callbacks :: "callback_group \<Rightarrow> cstate \<Rightarrow> cstate" where
  "unset_group_callbacks grp s0 =
     (let s1 = snd (find_ptrs_if (\<lambda>(c, w). timers w)
                 (\<lambda>timer (c, w).
                    (False, (c\<lparr>timers_manager := remove_timer timer (timers_manager c)\<rparr>, w)))
                 (timer_ptrs grp) s0);
          s2 = snd (find_ptrs_if (\<lambda>(c, w). subscriptions w)
                 (\<lambda>subscription (c, w).
                    (False, (c, w\<lparr>subscriptions :=
                       set_events_executor_callback (None, None) subscription
                         (subscriptions w)\<rparr>)))
                 (subscription_ptrs grp) s1);
          s3 = snd (find_ptrs_if (\<lambda>(c, w). services w)
                 (\<lambda>service (c, w).
                    (False, (c, w\<lparr>services :=
                       set_events_executor_callback (None, None) service (services w)\<rparr>)))
                 (service_ptrs grp) s2);
          s4 = snd (find_ptrs_if (\<lambda>(c, w). clients w)
                 (\<lambda>client (c, w).
                    (False, (c, w\<lparr>clients :=
                       set_events_executor_callback (None, None) client (clients w)\<rparr>)))
                 (client_ptrs grp) s3)
      in snd (find_ptrs_if (\<lambda>(c, w). waitables w)
                 (\<lambda>waitable (c, w).
                    (False, (c, w\<lparr>waitables :=
                       set_events_executor_callback (None, None) waitable (waitables w)\<rparr>)))
                 (waitable_ptrs grp) s4))"

fun unset_entities_callbacks_groups :: "weak_ptr list \<Rightarrow> cstate \<Rightarrow> cstate" where
  "unset_entities_callbacks_groups [] s = s"
| "unset_entities_callbacks_groups (weak_group # rest) s =
     (case lock (groups (snd s)) weak_group of
        None \<Rightarrow> unset_entities_callbacks_groups rest s
      | Some (g, grp) \<Rightarrow>
          if \<not> can_be_taken_from grp then unset_entities_callbacks_groups rest s
          else unset_entities_callbacks_groups rest (unset_group_callbacks grp s))"

text \<open>
  The \<open>while\<close> loop of \<open>remove_node\<close>: \<open>before\<close> holds the entries the iterator has passed,
  the list argument the entries from the iterator on. An entry whose \<open>lock()\<close> is null
  compares equal to a null \<open>node_ptr\<close>, which the matched branch then dereferences.
\<close>

fun remove_node_from ::
  "rcl_ret_t \<Rightarrow> addr \<Rightarrow> weak_ptr list \<Rightarrow> weak_ptr list \<Rightarrow> collector \<Rightarrow> world
    \<Rightarrow> unit outcome \<times> cstate" where
  "remove_node_from unbind_ret node_ptr before [] c w = (Returned (), c, w)"
| "remove_node_from unbind_ret node_ptr before (node_it # after) c w =
     (case lock (nodes w) node_it of
        None \<Rightarrow>
          if nodes w node_ptr = None then (Undefined_behaviour, c, w)
          else remove_node_from unbind_ret node_ptr (before @ [node_it]) after c w
      | Some (node, nd) \<Rightarrow>
          if node = node_ptr then
            (case rcl_guard_condition_set_events_executor_callback unbind_ret
                    (None, None, None) (notify_guard_condition nd) w of
               (ret, w1) \<Rightarrow>
                 if ret \<noteq> RCL_RET_OK then
                   (Threw (Runtime_error ''Couldn't set guard condition callback''), c, w1)
                 else
                   (case unset_entities_callbacks_groups (callback_groups nd) (c, w1) of
                      (c2, w2) \<Rightarrow> (Returned (), c2\<lparr>weak_nodes := before @ after\<rparr>, w2)))
          else remove_node_from unbind_ret node_ptr (before @ [node_it]) after c w)"

definition remove_node :: "rcl_ret_t \<Rightarrow> addr \<Rightarrow> collector \<Rightarrow> world \<Rightarrow> unit outcome \<times> cstate" where
  "remove_node unbind_ret node_ptr c w = remove_node_from unbind_ret node_ptr [] (weak_nodes c) c w"

text \<open>The destructor: the loop over the tracked nodes, then \<open>weak_nodes_.clear()\<close>.\<close>

fun disassociate_nodes :: "weak_ptr list \<Rightarrow> world \<Rightarrow> world" where
  "disassociate_nodes [] w = w"
| "disassociate_nodes (weak_node # rest) w =
     (case lock (nodes w) weak_node of
        None \<Rightarrow> disassociate_nodes rest w
      | Some (node, nd) \<Rightarrow>
          disassociate_nodes rest
            (w\<lparr>nodes := (nodes w)(node \<mapsto> nd\<lparr>associated_with_executor := False\<rparr>)\<rparr>))"

definition collector_destructor :: "collector \<Rightarrow> world \<Rightarrow> cstate" where
  "collector_destructor c w = (c\<lparr>weak_nodes := []\<rparr>, disassociate_nodes (weak_nodes c) w)"

section \<open>The events executor's add and remove\<close>

text \<open>
  Modelled from the spec: \<open>EventsExecutor::add_node\<close> and \<open>EventsExecutor::remove_node\<close>
  are not among the sources (only the test that calls them is). An executor is taken with
  the entities collector it owns. The spec's contract for \<open>add_unit(unit)\<close> is: "fails with
  AlreadyOwned if the unit's ownership flag is already set; otherwise registers the unit
  with the collector, binds its topology-change signal, and performs an initial wiring
  pass", which is what the collector's \<open>add_node\<close> does. For \<open>remove_unit(unit)\<close> it is:
  "unwires every entity reachable from the unit's callback groups, clears the
  topology-change binding, and drops the unit from the tracked set; no-op (or reports
  NotFound) if the unit was never added", which is the collector's \<open>remove_node\<close>; and since
  the flag says that the unit "is owned by an executor" and "after removal from A, adding
  to B succeeds", a completed removal of a tracked unit stores false in the flag. A failure
  of the unbinding is a transport error: "the operation that triggered it is aborted",
  so the exception leaves the flag as it was.
\<close>

definition executor_add_node ::
  "rcl_ret_t \<Rightarrow> addr \<Rightarrow> collector \<Rightarrow> world \<Rightarrow> unit outcome \<times> cstate" where
  "executor_add_node bind_ret node_ptr c w = add_node bind_ret node_ptr c w"

definition executor_remove_node ::
  "rcl_ret_t \<Rightarrow> addr \<Rightarrow> collector \<Rightarrow> world \<Rightarrow> unit outcome \<times> cstate" where
  "executor_remove_node unbind_ret node_ptr c w =
     (if Some node_ptr \<in> set (weak_nodes c) then
        (case remove_node unbind_ret node_ptr c w of
           (Returned u, c', w') \<Rightarrow>
             (case nodes w' node_ptr of
                None \<Rightarrow> (Undefined_behaviour, c', w')
              | Some nd \<Rightarrow>
                  (Returned (), c',
                   w'\<lparr>nodes := (nodes w')(node_ptr \<mapsto>
                         nd\<lparr>associated_with_executor := False\<rparr>)\<rparr>))
         | (Threw e, c', w') \<Rightarrow> (Threw e, c', w')
         | (Undefined_behaviour, c', w') \<Rightarrow> (Undefined_behaviour, c', w'))
      else (Returned (), c, w))"

section \<open>What a rebuild is meant to reach\<close>

text \<open>
  The description of the wiring in the words of the specification, against which the
  functions above are compared. A group is schedulable when its weak pointer still locks
  and its "can be taken from" flag is set; the tracked groups are the schedulable groups of
  the tracked nodes that are still alive.
\<close>

definition schedulable_groups :: "world \<Rightarrow> weak_ptr list \<Rightarrow> callback_group list" where
  "schedulable_groups w weak_groups =
     filter can_be_taken_from (map snd (List.map_filter (lock (groups w)) weak_groups))"

definition groups_of_nodes :: "world \<Rightarrow> weak_ptr list \<Rightarrow> callback_group list" where
  "groups_of_nodes w weak_nodes_list =
     concat (map (\<lambda>(node, nd). schedulable_groups w (callback_groups nd))
               (List.map_filter (lock (nodes w)) weak_nodes_list))"

definition tracked_groups :: "collector \<Rightarrow> world \<Rightarrow> callback_group list" where
  "tracked_groups c w = groups_of_nodes w (weak_nodes c)"

definition listed_in :: "(callback_group \<Rightarrow> weak_ptr list) \<Rightarrow> callback_group list \<Rightarrow> addr \<Rightarrow> bool" where
  "listed_in ptrs gs a = list_ex (\<lambda>g. Some a \<in> set (ptrs g)) gs"

definition assign_listener ::
  "listener \<Rightarrow> (addr \<Rightarrow> bool) \<Rightarrow> (addr \<rightharpoonup> 'a entity_scheme) \<Rightarrow> (addr \<rightharpoonup> 'a entity_scheme)" where
  "assign_listener l sel heap =
     (\<lambda>a. if sel a then map_option (\<lambda>e. e\<lparr>listener := l\<rparr>) (heap a) else heap a)"

definition wire :: "listener \<Rightarrow> callback_group list \<Rightarrow> world \<Rightarrow> world" where
  "wire l gs w =
     w\<lparr>subscriptions := assign_listener l (listed_in subscription_ptrs gs) (subscriptions w),
       services := assign_listener l (listed_in service_ptrs gs) (services w),
       clients := assign_listener l (listed_in client_ptrs gs) (clients w),
       waitables := assign_listener l (listed_in waitable_ptrs gs) (waitables w)\<rparr>"

definition wired_timers :: "callback_group list \<Rightarrow> world \<Rightarrow> addr set" where
  "wired_timers gs w = {t \<in> dom (timers w). listed_in timer_ptrs gs t}"

section \<open>Sample worlds\<close>

definition sample_ipm :: intra_process_manager where
  "sample_ipm =
     \<lparr>next_unique_id = 1, ipm_publishers = Map.empty, ipm_subscriptions = [7 \<mapsto> 620]\<rparr>"

definition sample_node :: node_base where
  "sample_node =
     \<lparr>associated_with_executor = False, callback_groups = [Some 100, Some 101, Some 102],
      default_callback_group = 100, notify_guard_condition = 50\<rparr>"

definition enabled_group :: callback_group where
  "enabled_group =
     \<lparr>can_be_taken_from = True, timer_ptrs = [Some 200, Some 201],
      subscription_ptrs = [Some 300], service_ptrs = [Some 400], client_ptrs = [Some 500],
      waitable_ptrs = [Some 600]\<rparr>"

definition disabled_group :: callback_group where
  "disabled_group =
     \<lparr>can_be_taken_from = False, timer_ptrs = [Some 210],
      subscription_ptrs = [Some 310], service_ptrs = [], client_ptrs = [],
      waitable_ptrs = [Some 610]\<rparr>"

definition idle :: entity where
  "idle = \<lparr>listener = (None, None)\<rparr>"

definition sample_subscription :: subscription_base where
  "sample_subscription =
     \<lparr>listener = (None, None), topic_name = ''/chatter'', subscription_event_handlers = [630],
      use_intra_process = True, intra_process_subscription_id = 7\<rparr>"

definition sample_publisher :: publisher_base where
  "sample_publisher =
     \<lparr>publisher_event_handlers = [640], intra_process_is_enabled = False,
      intra_process_publisher_id = 0\<rparr>"

text \<open>
  One node (address 1) with an enabled group (100), a disabled group (101) and a group that
  is gone (102); timer 201 is gone too. Node 2 does not exist.
\<close>

definition sample_world :: world where
  "sample_world =
     \<lparr>nodes = [1 \<mapsto> sample_node],
      groups = [100 \<mapsto> enabled_group, 101 \<mapsto> disabled_group],
      timers = [200 \<mapsto> (), 210 \<mapsto> ()],
      subscriptions = [300 \<mapsto> sample_subscription, 310 \<mapsto> sample_subscription],
      services = [400 \<mapsto> idle],
      clients = [500 \<mapsto> idle],
      waitables = [600 \<mapsto> idle, 610 \<mapsto> idle, 620 \<mapsto> idle, 630 \<mapsto> idle, 640 \<mapsto> idle],
      publishers = Map.empty,
      gc_callbacks = (\<lambda>_. (None, None, None)),
      gc_triggers = (\<lambda>_. 0),
      ipm = sample_ipm\<rparr>"

definition collector_A :: collector where
  "collector_A =
     \<lparr>collector_this = 900, associated_executor = 901, timers_manager = {},
      weak_nodes = []\<rparr>"

definition collector_B :: collector where
  "collector_B =
     \<lparr>collector_this = 910, associated_executor = 911, timers_manager = {},
      weak_nodes = []\<rparr>"

text \<open>
  Collector A after a while: it tracks node 1, a node that is gone and an empty weak
  pointer, and its timers manager still holds a timer (999) no group lists any more.
\<close>

definition collector_A_tracking :: collector where
  "collector_A_tracking =
     collector_A\<lparr>timers_manager := {999}, weak_nodes := [Some 1, Some 2, None]\<rparr>"

text \<open>
  The sample world after collector A wired node 1 while both groups could be taken from,
  with group 101 disabled afterwards.
\<close>

definition registered :: entity where
  "registered = \<lparr>listener = (Some 901, Some Push_event)\<rparr>"

definition wired_world :: world where
  "wired_world =
     sample_world
       \<lparr>nodes := [1 \<mapsto> sample_node\<lparr>associated_with_executor := True\<rparr>],
        subscriptions :=
          [300 \<mapsto> sample_subscription\<lparr>listener := (Some 901, Some Push_event)\<rparr>,
           310 \<mapsto> sample_subscription\<lparr>listener := (Some 901, Some Push_event)\<rparr>],
        services := [400 \<mapsto> registered],
        clients := [500 \<mapsto> registered],
        waitables := [600 \<mapsto> registered, 610 \<mapsto> registered, 620 \<mapsto> idle,
                      630 \<mapsto> idle, 640 \<mapsto> idle],
        gc_callbacks := (\<lambda>_. (None, None, None))(50 := (Some 901, Some Push_event, Some 900))\<rparr>"

definition collector_A_wired :: collector where
  "collector_A_wired = collector_A\<lparr>timers_manager := {200, 210}, weak_nodes := [Some 1]\<rparr>"

text \<open>
  Node 1 is added to executor A and then removed from it, both rcl calls succeeding.
\<close>

definition after_add_on_A :: "unit outcome \<times> cstate" where
  "after_add_on_A = executor_add_node RCL_RET_OK 1 collector_A sample_world"

definition after_remove_on_A :: "unit outcome \<times> cstate" where
  "after_remove_on_A =
     executor_remove_node RCL_RET_OK 1 (fst (snd after_add_on_A)) (snd (snd after_add_on_A))"

text \<open>
  The wired world again, with subscription 300 and timer 200 listed in the disabled group
  101 as well as in the enabled group 100.
\<close>

definition shared_world :: world where
  "shared_world =
     wired_world\<lparr>groups :=
       [100 \<mapsto> enabled_group,
        101 \<mapsto> disabled_group\<lparr>timer_ptrs := [Some 210, Some 200],
                                subscription_ptrs := [Some 310, Some 300]\<rparr>]\<rparr>"

definition world_with_publisher :: world where
  "world_with_publisher = sample_world\<lparr>publishers := [10 \<mapsto> sample_publisher]\<rparr>"

definition sample_publisher_factory :: publisher_factory where
  "sample_publisher_factory =
     \<lparr>create_typed_publisher = (\<lambda>node_base_ptr name publisher_options w.
        (10, w\<lparr>publishers := (publishers w)(10 \<mapsto> sample_publisher)\<rparr>))\<rparr>"

definition sample_subscription_factory :: subscription_factory where
  "sample_subscription_factory =
     \<lparr>create_typed_subscription = (\<lambda>node_base_ptr name subscription_options w.
        (320, w\<lparr>subscriptions := (subscriptions w)(320 \<mapsto>
                sample_subscription\<lparr>use_intra_process := False,
                  intra_process_subscription_id := 0\<rparr>)\<rparr>)),
      create_typed_subscription_intra_process = (\<lambda>buffer_type name subscription_options w.
        (650, w\<lparr>waitables := (waitables w)(650 \<mapsto> idle)\<rparr>))\<rparr>"

definition qos_profile ::
  "rmw_qos_history_policy_t \<Rightarrow> 64 word \<Rightarrow> rmw_qos_durability_policy_t \<Rightarrow> rmw_qos_profile_t" where
  "qos_profile h d du = \<lparr>history = h, depth = d, durability = du\<rparr>"

section \<open>Properties of NodeTopics\<close>

text \<open>
  C2. With \<open>use_intra_process\<close> true, \<open>create_publisher\<close> throws exactly when the history is
  keep-all or the durability is not volatile, and what it throws is an invalid-argument
  error. When it throws, the world is as the factory left it: the intra-process manager has
  registered nothing. When it does not throw and the factory has built a publisher, that
  publisher is returned, the manager maps the id it handed out to it, and the id is stored
  on the publisher.
\<close>

theorem create_publisher_intra_process:
  assumes "create_typed_publisher factory nb name opts w = (p, w1)"
  shows
    "((\<exists>e. fst (create_publisher nb name factory opts True w) = Threw e) \<longleftrightarrow>
        history (publisher_qos opts) = RMW_QOS_POLICY_HISTORY_KEEP_ALL
        \<or> durability (publisher_qos opts) \<noteq> RMW_QOS_POLICY_DURABILITY_VOLATILE)
     \<and> (\<forall>e. fst (create_publisher nb name factory opts True w) = Threw e \<longrightarrow>
          (\<exists>msg. e = Invalid_argument msg)
          \<and> snd (create_publisher nb name factory opts True w) = w1)
     \<and> (\<forall>pb. (\<forall>e. fst (create_publisher nb name factory opts True w) \<noteq> Threw e)
            \<longrightarrow> publishers w1 p = Some pb \<longrightarrow>
          create_publisher nb name factory opts True w =
            (Returned p,
             w1\<lparr>ipm := (ipm w1)\<lparr>next_unique_id := next_unique_id (ipm w1) + 1,
                    ipm_publishers := (ipm_publishers (ipm w1))(next_unique_id (ipm w1) \<mapsto> p)\<rparr>,
                publishers := (publishers w1)(p \<mapsto>
                   pb\<lparr>intra_process_publisher_id := next_unique_id (ipm w1),
                      intra_process_is_enabled := True\<rparr>)\<rparr>))"
  using assms
  by (auto simp: create_publisher_def ipm_add_publisher_def publisher_setup_intra_process_def
      split: option.splits)

theorem create_publisher_intra_process_witness:
  "create_typed_publisher sample_publisher_factory 1 ''chatter''
      \<lparr>publisher_qos = qos_profile RMW_QOS_POLICY_HISTORY_KEEP_LAST 10
                         RMW_QOS_POLICY_DURABILITY_VOLATILE\<rparr> sample_world
     = (10, sample_world\<lparr>publishers := (publishers sample_world)(10 \<mapsto> sample_publisher)\<rparr>)
   \<and> fst (create_publisher 1 ''chatter'' sample_publisher_factory
        \<lparr>publisher_qos = qos_profile RMW_QOS_POLICY_HISTORY_KEEP_LAST 10
                           RMW_QOS_POLICY_DURABILITY_VOLATILE\<rparr> True sample_world) = Returned 10
   \<and> (\<exists>msg. fst (create_publisher 1 ''chatter'' sample_publisher_factory
        \<lparr>publisher_qos = qos_profile RMW_QOS_POLICY_HISTORY_KEEP_ALL 10
                           RMW_QOS_POLICY_DURABILITY_VOLATILE\<rparr> True sample_world)
         = Threw (Invalid_argument msg))"
proof -
  let ?good = "\<lparr>publisher_qos = qos_profile RMW_QOS_POLICY_HISTORY_KEEP_LAST 10
                   RMW_QOS_POLICY_DURABILITY_VOLATILE\<rparr>"
  let ?bad = "\<lparr>publisher_qos = qos_profile RMW_QOS_POLICY_HISTORY_KEEP_ALL 10
                   RMW_QOS_POLICY_DURABILITY_VOLATILE\<rparr>"
  let ?w1 = "sample_world\<lparr>publishers := (publishers sample_world)(10 \<mapsto> sample_publisher)\<rparr>"
  have h: "create_typed_publisher sample_publisher_factory 1 ''chatter'' ?good sample_world
             = (10, ?w1)"
    by (simp add: sample_publisher_factory_def)
  have h': "create_typed_publisher sample_publisher_factory 1 ''chatter'' ?bad sample_world
             = (10, ?w1)"
    by (simp add: sample_publisher_factory_def)
  have q: "\<not> (history (publisher_qos ?good) = RMW_QOS_POLICY_HISTORY_KEEP_ALL
        \<or> durability (publisher_qos ?good) \<noteq> RMW_QOS_POLICY_DURABILITY_VOLATILE)"
    by (simp add: qos_profile_def)
  have q': "history (publisher_qos ?bad) = RMW_QOS_POLICY_HISTORY_KEEP_ALL"
    by (simp add: qos_profile_def)
  have pb: "publishers ?w1 10 = Some sample_publisher"
    by simp
  note t = create_publisher_intra_process [OF h]
  note t' = create_publisher_intra_process [OF h']
  from t q have nt: "\<forall>e. fst (create_publisher 1 ''chatter'' sample_publisher_factory ?good
                              True sample_world) \<noteq> Threw e"
    by blast
  from t nt pb have r: "fst (create_publisher 1 ''chatter'' sample_publisher_factory ?good
                              True sample_world) = Returned 10"
    by simp
  from t' q' have "\<exists>msg. fst (create_publisher 1 ''chatter'' sample_publisher_factory ?bad
                              True sample_world) = Threw (Invalid_argument msg)"
    by blast
  with h r show ?thesis by blast
qed

text \<open>
  C3. With \<open>use_intra_process\<close> true, \<open>create_subscription\<close> throws exactly when the history
  is keep-all, or keep-last with depth zero, or the durability is not volatile, and what it
  throws is an invalid-argument error. When it throws, the world is as the first factory
  call left it: no intra-process subscription was built and the manager has registered
  nothing. When it does not throw and the factory has built the subscription, the second
  factory call builds the intra-process subscription, the manager maps the id it handed out
  to that object, and the id is stored on the subscription.
\<close>

theorem create_subscription_intra_process:
  assumes "create_typed_subscription factory nb name opts w = (s, w1)"
  shows
    "((\<exists>e. fst (create_subscription nb name factory opts True bt w) = Threw e) \<longleftrightarrow>
        history (subscription_qos opts) = RMW_QOS_POLICY_HISTORY_KEEP_ALL
        \<or> (history (subscription_qos opts) = RMW_QOS_POLICY_HISTORY_KEEP_LAST
            \<and> depth (subscription_qos opts) = 0)
        \<or> durability (subscription_qos opts) \<noteq> RMW_QOS_POLICY_DURABILITY_VOLATILE)
     \<and> (\<forall>e. fst (create_subscription nb name factory opts True bt w) = Threw e \<longrightarrow>
          (\<exists>msg. e = Invalid_argument msg)
          \<and> snd (create_subscription nb name factory opts True bt w) = w1)
     \<and> (\<forall>sb sip w2 sb2.
          (\<forall>e. fst (create_subscription nb name factory opts True bt w) \<noteq> Threw e)
            \<longrightarrow> subscriptions w1 s = Some sb
            \<longrightarrow> create_typed_subscription_intra_process factory bt (topic_name sb) opts w1
                  = (sip, w2)
            \<longrightarrow> subscriptions w2 s = Some sb2 \<longrightarrow>
          create_subscription nb name factory opts True bt w =
            (Returned s,
             w2\<lparr>ipm := (ipm w2)\<lparr>next_unique_id := next_unique_id (ipm w2) + 1,
                    ipm_subscriptions :=
                      (ipm_subscriptions (ipm w2))(next_unique_id (ipm w2) \<mapsto> sip)\<rparr>,
                subscriptions := (subscriptions w2)(s \<mapsto>
                   sb2\<lparr>intra_process_subscription_id := next_unique_id (ipm w2),
                       use_intra_process := True\<rparr>)\<rparr>))"
  using assms
  by (auto simp: create_subscription_def ipm_add_subscription_def
      subscription_setup_intra_process_def split: option.splits prod.splits)

theorem create_subscription_intra_process_witness:
  "fst (create_typed_subscription sample_subscription_factory 1 ''chatter''
      \<lparr>subscription_qos = qos_profile RMW_QOS_POLICY_HISTORY_KEEP_LAST 10
                         RMW_QOS_POLICY_DURABILITY_VOLATILE\<rparr> sample_world) = 320
   \<and> fst (create_subscription 1 ''chatter'' sample_subscription_factory
        \<lparr>subscription_qos = qos_profile RMW_QOS_POLICY_HISTORY_KEEP_LAST 10
                           RMW_QOS_POLICY_DURABILITY_VOLATILE\<rparr> True CallbackDefault
        sample_world) = Returned 320
   \<and> (\<exists>msg. fst (create_subscription 1 ''chatter'' sample_subscription_factory
        \<lparr>subscription_qos = qos_profile RMW_QOS_POLICY_HISTORY_KEEP_LAST 0
                           RMW_QOS_POLICY_DURABILITY_VOLATILE\<rparr> True CallbackDefault
        sample_world) = Threw (Invalid_argument msg))"
proof -
  let ?good = "\<lparr>subscription_qos = qos_profile RMW_QOS_POLICY_HISTORY_KEEP_LAST 10
                   RMW_QOS_POLICY_DURABILITY_VOLATILE\<rparr>"
  let ?bad = "\<lparr>subscription_qos = qos_profile RMW_QOS_POLICY_HISTORY_KEEP_LAST 0
                   RMW_QOS_POLICY_DURABILITY_VOLATILE\<rparr>"
  let ?sb = "sample_subscription\<lparr>use_intra_process := False, intra_process_subscription_id := 0\<rparr>"
  let ?w1 = "sample_world\<lparr>subscriptions := (subscriptions sample_world)(320 \<mapsto> ?sb)\<rparr>"
  let ?w2 = "?w1\<lparr>waitables := (waitables ?w1)(650 \<mapsto> idle)\<rparr>"
  have h: "create_typed_subscription sample_subscription_factory 1 ''chatter'' ?good sample_world
             = (320, ?w1)"
    by (simp add: sample_subscription_factory_def)
  have h': "create_typed_subscription sample_subscription_factory 1 ''chatter'' ?bad sample_world
             = (320, ?w1)"
    by (simp add: sample_subscription_factory_def)
  have q: "\<not> (history (subscription_qos ?good) = RMW_QOS_POLICY_HISTORY_KEEP_ALL
        \<or> (history (subscription_qos ?good) = RMW_QOS_POLICY_HISTORY_KEEP_LAST
            \<and> depth (subscription_qos ?good) = 0)
        \<or> durability (subscription_qos ?good) \<noteq> RMW_QOS_POLICY_DURABILITY_VOLATILE)"
    by (simp add: qos_profile_def)
  have q': "history (subscription_qos ?bad) = RMW_QOS_POLICY_HISTORY_KEEP_LAST
            \<and> depth (subscription_qos ?bad) = 0"
    by (simp add: qos_profile_def)
  have sb: "subscriptions ?w1 320 = Some ?sb"
    by simp
  have f2: "create_typed_subscription_intra_process sample_subscription_factory CallbackDefault
              (topic_name ?sb) ?good ?w1 = (650, ?w2)"
    by (simp add: sample_subscription_factory_def)
  have sb2: "subscriptions ?w2 320 = Some ?sb"
    by simp
  note t = create_subscription_intra_process [OF h, of CallbackDefault]
  note t' = create_subscription_intra_process [OF h', of CallbackDefault]
  from t q have nt: "\<forall>e. fst (create_subscription 1 ''chatter'' sample_subscription_factory ?good
                              True CallbackDefault sample_world) \<noteq> Threw e"
    by blast
  note t3 = t [THEN conjunct2, THEN conjunct2, THEN spec, THEN spec, THEN spec, THEN spec,
               THEN mp, THEN mp, THEN mp, THEN mp, OF nt sb f2 sb2]
  from t3 have r: "fst (create_subscription 1 ''chatter'' sample_subscription_factory ?good
                              True CallbackDefault sample_world) = Returned 320"
    by simp
  from t' q' have "\<exists>msg. fst (create_subscription 1 ''chatter'' sample_subscription_factory ?bad
                              True CallbackDefault sample_world) = Threw (Invalid_argument msg)"
    by blast
  with h r show ?thesis by simp
qed

section \<open>Closed forms of the collector's loops\<close>

lemma assign_listener_none [simp]: "assign_listener l (\<lambda>a. False) heap = heap"
  by (simp add: assign_listener_def)

lemma assign_listener_step:
  "assign_listener l S (set_events_executor_callback l a heap)
     = assign_listener l (\<lambda>b. b = a \<or> S b) heap"
  by (auto simp: assign_listener_def set_events_executor_callback_def fun_eq_iff
      split: option.splits)

lemma assign_listener_dead:
  "heap a = None \<Longrightarrow> assign_listener l (\<lambda>b. b = a \<or> S b) heap = assign_listener l S heap"
  by (auto simp: assign_listener_def fun_eq_iff)

lemma assign_listener_twice:
  "assign_listener l S2 (assign_listener l S1 heap) = assign_listener l (\<lambda>a. S1 a \<or> S2 a) heap"
  by (auto simp: assign_listener_def fun_eq_iff option.map_comp comp_def)

lemma lock_None_iff: "lock heap p = None \<longleftrightarrow> p = None \<or> (\<exists>a. p = Some a \<and> heap a = None)"
  by (auto simp: lock_def split: option.splits)

lemma lock_Some_iff: "lock heap p = Some (a, obj) \<longleftrightarrow> p = Some a \<and> heap a = Some obj"
  by (auto simp: lock_def split: option.splits)

lemma find_timers_add:
  "snd (find_ptrs_if (\<lambda>(c, w). timers w)
          (\<lambda>timer (c, w). (False, (c\<lparr>timers_manager := add_timer timer (timers_manager c)\<rparr>, w)))
          ps (c, w))
   = (c\<lparr>timers_manager := timers_manager c \<union> {t \<in> dom (timers w). Some t \<in> set ps}\<rparr>, w)"
  (is "snd (find_ptrs_if ?H ?F ps (c, w)) = _")
proof (induction ps arbitrary: c)
  case Nil
  then show ?case by simp
next
  case (Cons p ps)
  show ?case
  proof (cases "lock (timers w) p")
    case None
    then have "snd (find_ptrs_if ?H ?F (p # ps) (c, w)) = snd (find_ptrs_if ?H ?F ps (c, w))"
      by simp
    also have "\<dots> = (c\<lparr>timers_manager := timers_manager c \<union> {t \<in> dom (timers w). Some t \<in> set ps}\<rparr>, w)"
      by (rule Cons.IH)
    also have "{t \<in> dom (timers w). Some t \<in> set ps} = {t \<in> dom (timers w). Some t \<in> set (p # ps)}"
      using None by (auto simp: lock_None_iff)
    finally show ?thesis .
  next
    case (Some r)
    then obtain a where p: "p = Some a" and a: "a \<in> dom (timers w)" and r: "r = (a, ())"
      by (cases r) (auto simp: lock_Some_iff)
    let ?c = "c\<lparr>timers_manager := insert a (timers_manager c)\<rparr>"
    have "snd (find_ptrs_if ?H ?F (p # ps) (c, w)) = snd (find_ptrs_if ?H ?F ps (?c, w))"
      using Some r by (simp add: add_timer_def)
    also have "\<dots> = (?c\<lparr>timers_manager := timers_manager ?c \<union> {t \<in> dom (timers w). Some t \<in> set ps}\<rparr>, w)"
      by (rule Cons.IH)
    also have "timers_manager ?c \<union> {t \<in> dom (timers w). Some t \<in> set ps}
                 = timers_manager c \<union> {t \<in> dom (timers w). Some t \<in> set (p # ps)}"
      using p a by auto
    finally show ?thesis by simp
  qed
qed

lemma find_timers_remove:
  "snd (find_ptrs_if (\<lambda>(c, w). timers w)
          (\<lambda>timer (c, w). (False, (c\<lparr>timers_manager := remove_timer timer (timers_manager c)\<rparr>, w)))
          ps (c, w))
   = (c\<lparr>timers_manager := timers_manager c - {t \<in> dom (timers w). Some t \<in> set ps}\<rparr>, w)"
  (is "snd (find_ptrs_if ?H ?F ps (c, w)) = _")
proof (induction ps arbitrary: c)
  case Nil
  then show ?case by simp
next
  case (Cons p ps)
  show ?case
  proof (cases "lock (timers w) p")
    case None
    then have "snd (find_ptrs_if ?H ?F (p # ps) (c, w)) = snd (find_ptrs_if ?H ?F ps (c, w))"
      by simp
    also have "\<dots> = (c\<lparr>timers_manager := timers_manager c - {t \<in> dom (timers w). Some t \<in> set ps}\<rparr>, w)"
      by (rule Cons.IH)
    also have "{t \<in> dom (timers w). Some t \<in> set ps} = {t \<in> dom (timers w). Some t \<in> set (p # ps)}"
      using None by (auto simp: lock_None_iff)
    finally show ?thesis .
  next
    case (Some r)
    then obtain a where p: "p = Some a" and a: "a \<in> dom (timers w)" and r: "r = (a, ())"
      by (cases r) (auto simp: lock_Some_iff)
    let ?c = "c\<lparr>timers_manager := timers_manager c - {a}\<rparr>"
    have "snd (find_ptrs_if ?H ?F (p # ps) (c, w)) = snd (find_ptrs_if ?H ?F ps (?c, w))"
      using Some r by (simp add: remove_timer_def)
    also have "\<dots> = (?c\<lparr>timers_manager := timers_manager ?c - {t \<in> dom (timers w). Some t \<in> set ps}\<rparr>, w)"
      by (rule Cons.IH)
    also have "timers_manager ?c - {t \<in> dom (timers w). Some t \<in> set ps}
                 = timers_manager c - {t \<in> dom (timers w). Some t \<in> set (p # ps)}"
      using p a by auto
    finally show ?thesis by simp
  qed
qed

lemma listed_step:
  "(\<lambda>b. Some b \<in> set (Some a # ps)) = (\<lambda>b. b = a \<or> Some b \<in> set ps)"
  "(\<lambda>b. Some b \<in> set (None # ps)) = (\<lambda>b. Some b \<in> set ps)"
  by auto

lemma find_subscriptions_assign:
  "snd (find_ptrs_if (\<lambda>(c, w). subscriptions w)
          (\<lambda>subscription (c, w).
             (False, (c, w\<lparr>subscriptions :=
                set_events_executor_callback (L c) subscription (subscriptions w)\<rparr>)))
          ps (c, w))
   = (c, w\<lparr>subscriptions := assign_listener (L c) (\<lambda>a. Some a \<in> set ps) (subscriptions w)\<rparr>)"
  (is "snd (find_ptrs_if ?H ?F ps (c, w)) = _")
proof (induction ps arbitrary: w)
  case Nil
  then show ?case by simp
next
  case (Cons p ps)
  show ?case
  proof (cases "lock (subscriptions w) p")
    case None
    then have "snd (find_ptrs_if ?H ?F (p # ps) (c, w)) = snd (find_ptrs_if ?H ?F ps (c, w))"
      by simp
    also have "\<dots> = (c, w\<lparr>subscriptions := assign_listener (L c) (\<lambda>a. Some a \<in> set ps) (subscriptions w)\<rparr>)"
      by (rule Cons.IH)
    also have "assign_listener (L c) (\<lambda>a. Some a \<in> set ps) (subscriptions w)
                 = assign_listener (L c) (\<lambda>a. Some a \<in> set (p # ps)) (subscriptions w)"
      using None by (auto simp: lock_None_iff listed_step assign_listener_dead)
    finally show ?thesis .
  next
    case (Some r)
    then obtain a obj where p: "p = Some a" and r: "r = (a, obj)"
      by (cases r) (auto simp: lock_Some_iff)
    let ?w = "w\<lparr>subscriptions := set_events_executor_callback (L c) a (subscriptions w)\<rparr>"
    have "snd (find_ptrs_if ?H ?F (p # ps) (c, w)) = snd (find_ptrs_if ?H ?F ps (c, ?w))"
      using Some r by simp
    also have "\<dots> = (c, ?w\<lparr>subscriptions := assign_listener (L c) (\<lambda>a. Some a \<in> set ps) (subscriptions ?w)\<rparr>)"
      by (rule Cons.IH)
    also have "assign_listener (L c) (\<lambda>a. Some a \<in> set ps) (subscriptions ?w)
                 = assign_listener (L c) (\<lambda>a. Some a \<in> set (p # ps)) (subscriptions w)"
      by (simp add: p listed_step assign_listener_step)
    finally show ?thesis by simp
  qed
qed

lemma find_services_assign:
  "snd (find_ptrs_if (\<lambda>(c, w). services w)
          (\<lambda>service (c, w).
             (False, (c, w\<lparr>services :=
                set_events_executor_callback (L c) service (services w)\<rparr>)))
          ps (c, w))
   = (c, w\<lparr>services := assign_listener (L c) (\<lambda>a. Some a \<in> set ps) (services w)\<rparr>)"
  (is "snd (find_ptrs_if ?H ?F ps (c, w)) = _")
proof (induction ps arbitrary: w)
  case Nil
  then show ?case by simp
next
  case (Cons p ps)
  show ?case
  proof (cases "lock (services w) p")
    case None
    then have "snd (find_ptrs_if ?H ?F (p # ps) (c, w)) = snd (find_ptrs_if ?H ?F ps (c, w))"
      by simp
    also have "\<dots> = (c, w\<lparr>services := assign_listener (L c) (\<lambda>a. Some a \<in> set ps) (services w)\<rparr>)"
      by (rule Cons.IH)
    also have "assign_listener (L c) (\<lambda>a. Some a \<in> set ps) (services w)
                 = assign_listener (L c) (\<lambda>a. Some a \<in> set (p # ps)) (services w)"
      using None by (auto simp: lock_None_iff listed_step assign_listener_dead)
    finally show ?thesis .
  next
    case (Some r)
    then obtain a obj where p: "p = Some a" and r: "r = (a, obj)"
      by (cases r) (auto simp: lock_Some_iff)
    let ?w = "w\<lparr>services := set_events_executor_callback (L c) a (services w)\<rparr>"
    have "snd (find_ptrs_if ?H ?F (p # ps) (c, w)) = snd (find_ptrs_if ?H ?F ps (c, ?w))"
      using Some r by simp
    also have "\<dots> = (c, ?w\<lparr>services := assign_listener (L c) (\<lambda>a. Some a \<in> set ps) (services ?w)\<rparr>)"
      by (rule Cons.IH)
    also have "assign_listener (L c) (\<lambda>a. Some a \<in> set ps) (services ?w)
                 = assign_listener (L c) (\<lambda>a. Some a \<in> set (p # ps)) (services w)"
      by (simp add: p listed_step assign_listener_step)
    finally show ?thesis by simp
  qed
qed

lemma find_clients_assign:
  "snd (find_ptrs_if (\<lambda>(c, w). clients w)
          (\<lambda>client (c, w).
             (False, (c, w\<lparr>clients :=
                set_events_executor_callback (L c) client (clients w)\<rparr>)))
          ps (c, w))
   = (c, w\<lparr>clients := assign_listener (L c) (\<lambda>a. Some a \<in> set ps) (clients w)\<rparr>)"
  (is "snd (find_ptrs_if ?H ?F ps (c, w)) = _")
proof (induction ps arbitrary: w)
  case Nil
  then show ?case by simp
next
  case (Cons p ps)
  show ?case
  proof (cases "lock (clients w) p")
    case None
    then have "snd (find_ptrs_if ?H ?F (p # ps) (c, w)) = snd (find_ptrs_if ?H ?F ps (c, w))"
      by simp
    also have "\<dots> = (c, w\<lparr>clients := assign_listener (L c) (\<lambda>a. Some a \<in> set ps) (clients w)\<rparr>)"
      by (rule Cons.IH)
    also have "assign_listener (L c) (\<lambda>a. Some a \<in> set ps) (clients w)
                 = assign_listener (L c) (\<lambda>a. Some a \<in> set (p # ps)) (clients w)"
      using None by (auto simp: lock_None_iff listed_step assign_listener_dead)
    finally show ?thesis .
  next
    case (Some r)
    then obtain a obj where p: "p = Some a" and r: "r = (a, obj)"
      by (cases r) (auto simp: lock_Some_iff)
    let ?w = "w\<lparr>clients := set_events_executor_callback (L c) a (clients w)\<rparr>"
    have "snd (find_ptrs_if ?H ?F (p # ps) (c, w)) = snd (find_ptrs_if ?H ?F ps (c, ?w))"
      using Some r by simp
    also have "\<dots> = (c, ?w\<lparr>clients := assign_listener (L c) (\<lambda>a. Some a \<in> set ps) (clients ?w)\<rparr>)"
      by (rule Cons.IH)
    also have "assign_listener (L c) (\<lambda>a. Some a \<in> set ps) (clients ?w)
                 = assign_listener (L c) (\<lambda>a. Some a \<in> set (p # ps)) (clients w)"
      by (simp add: p listed_step assign_listener_step)
    finally show ?thesis by simp
  qed
qed

lemma find_waitables_assign:
  "snd (find_ptrs_if (\<lambda>(c, w). waitables w)
          (\<lambda>waitable (c, w).
             (False, (c, w\<lparr>waitables :=
                set_events_executor_callback (L c) waitable (waitables w)\<rparr>)))
          ps (c, w))
   = (c, w\<lparr>waitables := assign_listener (L c) (\<lambda>a. Some a \<in> set ps) (waitables w)\<rparr>)"
  (is "snd (find_ptrs_if ?H ?F ps (c, w)) = _")
proof (induction ps arbitrary: w)
  case Nil
  then show ?case by simp
next
  case (Cons p ps)
  show ?case
  proof (cases "lock (waitables w) p")
    case None
    then have "snd (find_ptrs_if ?H ?F (p # ps) (c, w)) = snd (find_ptrs_if ?H ?F ps (c, w))"
      by simp
    also have "\<dots> = (c, w\<lparr>waitables := assign_listener (L c) (\<lambda>a. Some a \<in> set ps) (waitables w)\<rparr>)"
      by (rule Cons.IH)
    also have "assign_listener (L c) (\<lambda>a. Some a \<in> set ps) (waitables w)
                 = assign_listener (L c) (\<lambda>a. Some a \<in> set (p # ps)) (waitables w)"
      using None by (auto simp: lock_None_iff listed_step assign_listener_dead)
    finally show ?thesis .
  next
    case (Some r)
    then obtain a obj where p: "p = Some a" and r: "r = (a, obj)"
      by (cases r) (auto simp: lock_Some_iff)
    let ?w = "w\<lparr>waitables := set_events_executor_callback (L c) a (waitables w)\<rparr>"
    have "snd (find_ptrs_if ?H ?F (p # ps) (c, w)) = snd (find_ptrs_if ?H ?F ps (c, ?w))"
      using Some r by simp
    also have "\<dots> = (c, ?w\<lparr>waitables := assign_listener (L c) (\<lambda>a. Some a \<in> set ps) (waitables ?w)\<rparr>)"
      by (rule Cons.IH)
    also have "assign_listener (L c) (\<lambda>a. Some a \<in> set ps) (waitables ?w)
                 = assign_listener (L c) (\<lambda>a. Some a \<in> set (p # ps)) (waitables w)"
      by (simp add: p listed_step assign_listener_step)
    finally show ?thesis by simp
  qed
qed

section \<open>Closed forms of the group and node loops\<close>

lemma listed_in_Nil [simp]: "listed_in ptrs [] = (\<lambda>a. False)"
  by (simp add: listed_in_def fun_eq_iff)

lemma listed_in_single: "listed_in ptrs [g] = (\<lambda>a. Some a \<in> set (ptrs g))"
  by (simp add: listed_in_def fun_eq_iff)

lemma listed_in_append:
  "listed_in ptrs (gs1 @ gs2) = (\<lambda>a. listed_in ptrs gs1 a \<or> listed_in ptrs gs2 a)"
  by (simp add: listed_in_def fun_eq_iff)

lemma listed_in_iff: "listed_in ptrs gs a \<longleftrightarrow> (\<exists>g \<in> set gs. Some a \<in> set (ptrs g))"
  by (simp add: listed_in_def list_ex_iff)

lemma wire_Nil [simp]: "wire l [] w = w"
  by (simp add: wire_def)

lemma wire_append: "wire l gs2 (wire l gs1 w) = wire l (gs1 @ gs2) w"
  by (simp add: wire_def listed_in_append assign_listener_twice)

lemma wire_frame [simp]:
  "nodes (wire l gs w) = nodes w" "groups (wire l gs w) = groups w"
  "timers (wire l gs w) = timers w" "publishers (wire l gs w) = publishers w"
  "gc_callbacks (wire l gs w) = gc_callbacks w" "gc_triggers (wire l gs w) = gc_triggers w"
  "ipm (wire l gs w) = ipm w"
  by (simp_all add: wire_def)

lemma wired_timers_Nil [simp]: "wired_timers [] w = {}"
  by (simp add: wired_timers_def)

lemma wired_timers_append:
  "wired_timers (gs1 @ gs2) w = wired_timers gs1 w \<union> wired_timers gs2 w"
  by (auto simp: wired_timers_def listed_in_append)

lemma wired_timers_Cons:
  "wired_timers [g] w \<union> wired_timers gs w = wired_timers (g # gs) w"
  using wired_timers_append [of "[g]" gs w] by simp

lemma diff_diff_union: "A - B - C = A - (B \<union> C)"
  by auto

lemma wired_timers_wire [simp]: "wired_timers gs (wire l gs' w) = wired_timers gs w"
  by (simp add: wired_timers_def)

lemma schedulable_groups_wire [simp]:
  "schedulable_groups (wire l gs w) ps = schedulable_groups w ps"
  by (simp add: schedulable_groups_def)

lemma groups_of_nodes_wire [simp]: "groups_of_nodes (wire l gs w) ps = groups_of_nodes w ps"
  by (simp add: groups_of_nodes_def)

lemma push_event_of_timers [simp]: "push_event_of (c\<lparr>timers_manager := tm\<rparr>) = push_event_of c"
  by (simp add: push_event_of_def)

lemma set_group_callbacks_eq:
  "set_group_callbacks g (c, w)
     = (c\<lparr>timers_manager := timers_manager c \<union> wired_timers [g] w\<rparr>,
        wire (push_event_of c) [g] w)"
  by (simp add: set_group_callbacks_def Let_def find_timers_add find_subscriptions_assign
      find_services_assign find_clients_assign find_waitables_assign
      wire_def wired_timers_def listed_in_single)

lemma unset_group_callbacks_eq:
  "unset_group_callbacks g (c, w)
     = (c\<lparr>timers_manager := timers_manager c - wired_timers [g] w\<rparr>,
        wire (None, None) [g] w)"
  by (simp add: unset_group_callbacks_def Let_def find_timers_remove find_subscriptions_assign
      find_services_assign find_clients_assign find_waitables_assign
      wire_def wired_timers_def listed_in_single)

lemma schedulable_groups_Nil [simp]: "schedulable_groups w [] = []"
  by (simp add: schedulable_groups_def)

lemma schedulable_groups_Cons:
  "schedulable_groups w (p # ps) =
     (case lock (groups w) p of
        None \<Rightarrow> []
      | Some (g, grp) \<Rightarrow> if can_be_taken_from grp then [grp] else [])
     @ schedulable_groups w ps"
  by (simp add: schedulable_groups_def split: option.splits)

lemma set_entities_callbacks_groups_eq:
  "set_entities_callbacks_groups ps (c, w)
     = (c\<lparr>timers_manager := timers_manager c \<union> wired_timers (schedulable_groups w ps) w\<rparr>,
        wire (push_event_of c) (schedulable_groups w ps) w)"
proof (induction ps arbitrary: c w)
  case Nil
  then show ?case by simp
next
  case (Cons p ps)
  show ?case
  proof (cases "lock (groups w) p")
    case None
    with Cons show ?thesis by (simp add: schedulable_groups_Cons)
  next
    case (Some r)
    obtain g grp where r: "r = (g, grp)" by (cases r)
    show ?thesis
    proof (cases "can_be_taken_from grp")
      case False
      with Some r Cons show ?thesis by (simp add: schedulable_groups_Cons)
    next
      case True
      with Some r Cons show ?thesis
        by (simp add: schedulable_groups_Cons set_group_callbacks_eq wire_append
            wired_timers_Cons Un_assoc)
    qed
  qed
qed

lemma unset_entities_callbacks_groups_eq:
  "unset_entities_callbacks_groups ps (c, w)
     = (c\<lparr>timers_manager := timers_manager c - wired_timers (schedulable_groups w ps) w\<rparr>,
        wire (None, None) (schedulable_groups w ps) w)"
proof (induction ps arbitrary: c w)
  case Nil
  then show ?case by simp
next
  case (Cons p ps)
  show ?case
  proof (cases "lock (groups w) p")
    case None
    with Cons show ?thesis by (simp add: schedulable_groups_Cons)
  next
    case (Some r)
    obtain g grp where r: "r = (g, grp)" by (cases r)
    show ?thesis
    proof (cases "can_be_taken_from grp")
      case False
      with Some r Cons show ?thesis by (simp add: schedulable_groups_Cons)
    next
      case True
      with Some r Cons show ?thesis
        by (simp add: schedulable_groups_Cons unset_group_callbacks_eq wire_append
            wired_timers_Cons diff_diff_union)
    qed
  qed
qed

lemma set_entities_callbacks_eq:
  "nodes w node = Some nd \<Longrightarrow>
   set_entities_callbacks node (c, w)
     = (c\<lparr>timers_manager :=
            timers_manager c \<union> wired_timers (schedulable_groups w (callback_groups nd)) w\<rparr>,
        wire (push_event_of c) (schedulable_groups w (callback_groups nd)) w)"
  by (simp add: set_entities_callbacks_def set_entities_callbacks_groups_eq)

lemma groups_of_nodes_Nil [simp]: "groups_of_nodes w [] = []"
  by (simp add: groups_of_nodes_def)

lemma groups_of_nodes_Cons:
  "groups_of_nodes w (p # ps) =
     (case lock (nodes w) p of
        None \<Rightarrow> []
      | Some (node, nd) \<Rightarrow> schedulable_groups w (callback_groups nd))
     @ groups_of_nodes w ps"
  by (simp add: groups_of_nodes_def split: option.splits)

lemma execute_nodes_eq:
  "execute_nodes ps (c, w)
     = (c\<lparr>timers_manager := timers_manager c \<union> wired_timers (groups_of_nodes w ps) w\<rparr>,
        wire (push_event_of c) (groups_of_nodes w ps) w)"
proof (induction ps arbitrary: c w)
  case Nil
  then show ?case by simp
next
  case (Cons p ps)
  show ?case
  proof (cases "lock (nodes w) p")
    case None
    with Cons show ?thesis by (simp add: groups_of_nodes_Cons)
  next
    case (Some r)
    obtain node nd where r: "r = (node, nd)" by (cases r)
    with Some have nd: "nodes w node = Some nd" by (simp add: lock_Some_iff)
    from Some r Cons show ?thesis
      by (simp add: groups_of_nodes_Cons set_entities_callbacks_eq [OF nd] wire_append
          wired_timers_append Un_assoc)
  qed
qed

lemma execute_eq:
  "execute c w
     = (c\<lparr>timers_manager := wired_timers (tracked_groups c w) w\<rparr>,
        wire (push_event_of c) (tracked_groups c w) w)"
  by (simp add: execute_def execute_nodes_eq clear_all_def tracked_groups_def)

lemma wire_idem: "wire l gs (wire l gs w) = wire l gs w"
  by (simp add: wire_def assign_listener_twice)

lemma in_schedulable_groups_iff:
  "g \<in> set (schedulable_groups w ps)
     \<longleftrightarrow> (\<exists>ga. Some ga \<in> set ps \<and> groups w ga = Some g \<and> can_be_taken_from g)"
  by (induction ps) (auto simp: schedulable_groups_Cons lock_def split: option.splits)

lemma in_groups_of_nodes_iff:
  "g \<in> set (groups_of_nodes w ps)
     \<longleftrightarrow> (\<exists>n nd. Some n \<in> set ps \<and> nodes w n = Some nd
            \<and> g \<in> set (schedulable_groups w (callback_groups nd)))"
  by (induction ps) (auto simp: groups_of_nodes_Cons lock_def split: option.splits)

lemma listed_in_tracked_groups_iff:
  "listed_in ptrs (tracked_groups c w) a
     \<longleftrightarrow> (\<exists>n nd ga g. Some n \<in> set (weak_nodes c) \<and> nodes w n = Some nd
            \<and> Some ga \<in> set (callback_groups nd) \<and> groups w ga = Some g
            \<and> can_be_taken_from g \<and> Some a \<in> set (ptrs g))"
proof -
  have "listed_in ptrs (tracked_groups c w) a
          \<longleftrightarrow> (\<exists>g. g \<in> set (groups_of_nodes w (weak_nodes c)) \<and> Some a \<in> set (ptrs g))"
    by (auto simp: listed_in_iff tracked_groups_def)
  also have "\<dots> \<longleftrightarrow> (\<exists>n nd ga g. Some n \<in> set (weak_nodes c) \<and> nodes w n = Some nd
            \<and> Some ga \<in> set (callback_groups nd) \<and> groups w ga = Some g
            \<and> can_be_taken_from g \<and> Some a \<in> set (ptrs g))"
    unfolding in_groups_of_nodes_iff in_schedulable_groups_iff by blast
  finally show ?thesis .
qed

lemma tracked_groups_after [simp]:
  "tracked_groups (c\<lparr>timers_manager := tm\<rparr>) (wire l gs w) = tracked_groups c w"
  by (simp add: tracked_groups_def)

section \<open>Properties of the entities collector\<close>

text \<open>
  C4. \<open>execute\<close> always returns (it has no failing path). Whatever the timers manager held
  before, afterwards it holds exactly the live timers listed in a tracked group, that is, in
  a live group with the "can be taken from" flag set of a tracked node that is still alive
  (\<open>listed_in_tracked_groups_iff\<close> spells this reading out). Every live subscription,
  service, client and waitable listed in such a group carries the executor's push-event
  callback, and every other entity is left as it was. Dead nodes, dead groups and groups
  whose flag is false contribute nothing; the nodes, groups and tracked set are not changed.
\<close>

theorem execute_rebuilds_everything:
  "execute c w = (c', w') \<Longrightarrow>
     timers_manager c' = {t \<in> dom (timers w). listed_in timer_ptrs (tracked_groups c w) t}
     \<and> (\<forall>a. subscriptions w' a =
            (if listed_in subscription_ptrs (tracked_groups c w) a
             then map_option (\<lambda>e. e\<lparr>listener := push_event_of c\<rparr>) (subscriptions w a)
             else subscriptions w a))
     \<and> (\<forall>a. services w' a =
            (if listed_in service_ptrs (tracked_groups c w) a
             then map_option (\<lambda>e. e\<lparr>listener := push_event_of c\<rparr>) (services w a)
             else services w a))
     \<and> (\<forall>a. clients w' a =
            (if listed_in client_ptrs (tracked_groups c w) a
             then map_option (\<lambda>e. e\<lparr>listener := push_event_of c\<rparr>) (clients w a)
             else clients w a))
     \<and> (\<forall>a. waitables w' a =
            (if listed_in waitable_ptrs (tracked_groups c w) a
             then map_option (\<lambda>e. e\<lparr>listener := push_event_of c\<rparr>) (waitables w a)
             else waitables w a))
     \<and> weak_nodes c' = weak_nodes c \<and> nodes w' = nodes w \<and> groups w' = groups w
     \<and> timers w' = timers w"
  by (auto simp: execute_eq wire_def wired_timers_def assign_listener_def)

text \<open>
  C7. The rebuild is idempotent: running \<open>execute\<close> on the state a first \<open>execute\<close>
  produced gives that same state again, timers manager and callback registrations included.
\<close>

theorem execute_idempotent:
  "execute (fst (execute c w)) (snd (execute c w)) = execute c w"
  by (simp add: execute_eq wire_idem)

lemmas fixtures = sample_world_def sample_node_def enabled_group_def disabled_group_def idle_def
  sample_subscription_def sample_publisher_def collector_A_def collector_B_def sample_ipm_def
  collector_A_tracking_def registered_def wired_world_def collector_A_wired_def

lemmas collector_code = lock_def set_events_executor_callback_def push_event_of_def
  add_timer_def remove_timer_def clear_all_def set_group_callbacks_def unset_group_callbacks_def
  set_entities_callbacks_def rcl_guard_condition_set_events_executor_callback_def
  RCL_RET_OK_def add_node_def remove_node_def execute_def collector_destructor_def

theorem execute_rebuilds_everything_witness:
  "timers_manager (fst (execute collector_A_tracking sample_world)) = {200}
   \<and> map_option listener (subscriptions (snd (execute collector_A_tracking sample_world)) 300)
        = Some (Some 901, Some Push_event)
   \<and> map_option listener (subscriptions (snd (execute collector_A_tracking sample_world)) 310)
        = Some (None, None)"
proof -
  have e: "execute collector_A_tracking sample_world
             = (fst (execute collector_A_tracking sample_world),
                snd (execute collector_A_tracking sample_world))"
    by simp
  have g: "tracked_groups collector_A_tracking sample_world = [enabled_group]"
    by (simp add: tracked_groups_def groups_of_nodes_def schedulable_groups_def
        fixtures lock_def)
  have l: "listed_in subscription_ptrs [enabled_group] 300"
          "\<not> listed_in subscription_ptrs [enabled_group] 310"
          "\<And>t. listed_in timer_ptrs [enabled_group] t \<longleftrightarrow> t = 200 \<or> t = 201"
    by (auto simp: listed_in_def enabled_group_def)
  have d: "dom (timers sample_world) = {200, 210}"
    by (auto simp: sample_world_def)
  have s: "subscriptions sample_world 300 = Some sample_subscription"
          "subscriptions sample_world 310 = Some sample_subscription"
    by (simp_all add: sample_world_def)
  note t = execute_rebuilds_everything [OF e, unfolded g]
  from t have "timers_manager (fst (execute collector_A_tracking sample_world))
                 = {t \<in> dom (timers sample_world). listed_in timer_ptrs [enabled_group] t}"
    by blast
  then have 1: "timers_manager (fst (execute collector_A_tracking sample_world)) = {200}"
    unfolding d l by auto
  from t have 2: "\<forall>a. subscriptions (snd (execute collector_A_tracking sample_world)) a =
            (if listed_in subscription_ptrs [enabled_group] a
             then map_option (\<lambda>e. e\<lparr>listener := push_event_of collector_A_tracking\<rparr>)
                    (subscriptions sample_world a)
             else subscriptions sample_world a)"
    by blast
  from 2 [THEN spec, of 300] 2 [THEN spec, of 310] l s 1 show ?thesis
    by (simp add: push_event_of_def collector_A_tracking_def collector_A_def
        sample_subscription_def)
qed

theorem execute_idempotent_witness:
  "execute (fst (execute collector_A_tracking sample_world))
           (snd (execute collector_A_tracking sample_world))
     = execute collector_A_tracking sample_world
   \<and> timers_manager (fst (execute collector_A_tracking sample_world)) = {200}"
  using execute_idempotent [of collector_A_tracking sample_world]
  by (simp add: fixtures collector_code)

section \<open>Adding, removing and releasing nodes\<close>

lemma schedulable_groups_update [simp]:
  "schedulable_groups (w\<lparr>nodes := ns\<rparr>) ps = schedulable_groups w ps"
  "schedulable_groups (w\<lparr>gc_callbacks := cbs\<rparr>) ps = schedulable_groups w ps"
  by (simp_all add: schedulable_groups_def)

lemma wired_timers_update [simp]:
  "wired_timers gs (w\<lparr>nodes := ns\<rparr>) = wired_timers gs w"
  "wired_timers gs (w\<lparr>gc_callbacks := cbs\<rparr>) = wired_timers gs w"
  by (simp_all add: wired_timers_def)

lemma wire_nodes_update:
  "wire l gs (w\<lparr>nodes := ns\<rparr>) = (wire l gs w)\<lparr>nodes := ns\<rparr>"
  by (simp add: wire_def)

lemma wire_gc_callbacks_update:
  "wire l gs (w\<lparr>gc_callbacks := cbs\<rparr>) = (wire l gs w)\<lparr>gc_callbacks := cbs\<rparr>"
  by (simp add: wire_def)

lemma add_node_owned:
  assumes "nodes w n = Some nd" and "associated_with_executor nd"
  shows "add_node r n c w
           = (Threw (Runtime_error ''Node has already been added to an executor.''), c, w)"
proof -
  from assms(2) have "nd\<lparr>associated_with_executor := True\<rparr> = nd"
    by simp
  with assms(1) have "(nodes w)(n \<mapsto> nd\<lparr>associated_with_executor := True\<rparr>) = nodes w"
    by (simp add: map_upd_triv)
  with assms show ?thesis
    by (simp add: add_node_def)
qed

lemma add_node_fresh:
  assumes "nodes w n = Some nd" and "\<not> associated_with_executor nd"
  shows "add_node r n c w =
     (let G = schedulable_groups w (callback_groups nd);
          c' = c\<lparr>weak_nodes := weak_nodes c @ [Some n],
                 timers_manager := timers_manager c \<union> wired_timers G w\<rparr>;
          w2 = wire (push_event_of c) G
                 (w\<lparr>nodes := (nodes w)(n \<mapsto> nd\<lparr>associated_with_executor := True\<rparr>)\<rparr>)
      in if r \<noteq> RCL_RET_OK
         then (Threw (Runtime_error ''Couldn't set node guard condition callback''), c', w2)
         else (Returned (), c',
               w2\<lparr>gc_callbacks := (gc_callbacks w2)(notify_guard_condition nd :=
                     (Some (associated_executor c), Some Push_event, Some (collector_this c)))\<rparr>))"
proof -
  let ?w1 = "w\<lparr>nodes := (nodes w)(n \<mapsto> nd\<lparr>associated_with_executor := True\<rparr>)\<rparr>"
  let ?c1 = "c\<lparr>weak_nodes := weak_nodes c @ [Some n]\<rparr>"
  have n1: "nodes ?w1 n = Some (nd\<lparr>associated_with_executor := True\<rparr>)"
    by simp
  have s: "set_entities_callbacks n (?c1, ?w1)
             = (?c1\<lparr>timers_manager := timers_manager ?c1
                      \<union> wired_timers (schedulable_groups w (callback_groups nd)) w\<rparr>,
                wire (push_event_of c) (schedulable_groups w (callback_groups nd)) ?w1)"
    by (simp add: set_entities_callbacks_eq [OF n1] push_event_of_def)
  from assms show ?thesis
    by (simp add: add_node_def s Let_def rcl_guard_condition_set_events_executor_callback_def)
qed

text \<open>
  C5. For a live node: when the ownership flag is already set, \<open>add_node\<close> throws the
  "already added" runtime error and changes neither the world (the flag stays set) nor the
  collector (the tracked set is unchanged). When the flag is not set, \<open>add_node\<close> sets it,
  appends the node to the tracked set, wires the entities of the node's schedulable groups
  (timers into the timers manager, the push-event callback on the others), and then binds
  the node's guard condition to the executor's push-event callback: it returns when the
  binding succeeds and throws a runtime error when the binding reports failure.
\<close>

theorem add_node_contract:
  assumes "nodes w n = Some nd" and "add_node r n c w = (out, c', w')"
  shows
    "(associated_with_executor nd \<longrightarrow>
        out = Threw (Runtime_error ''Node has already been added to an executor.'')
        \<and> c' = c \<and> w' = w)
     \<and> (\<not> associated_with_executor nd \<longrightarrow>
          nodes w' n = Some (nd\<lparr>associated_with_executor := True\<rparr>)
          \<and> weak_nodes c' = weak_nodes c @ [Some n]
          \<and> timers_manager c' = timers_manager c
               \<union> wired_timers (schedulable_groups w (callback_groups nd)) w
          \<and> subscriptions w' = assign_listener (push_event_of c)
               (listed_in subscription_ptrs (schedulable_groups w (callback_groups nd)))
               (subscriptions w)
          \<and> services w' = assign_listener (push_event_of c)
               (listed_in service_ptrs (schedulable_groups w (callback_groups nd))) (services w)
          \<and> clients w' = assign_listener (push_event_of c)
               (listed_in client_ptrs (schedulable_groups w (callback_groups nd))) (clients w)
          \<and> waitables w' = assign_listener (push_event_of c)
               (listed_in waitable_ptrs (schedulable_groups w (callback_groups nd))) (waitables w)
          \<and> (r = RCL_RET_OK \<longrightarrow>
                out = Returned ()
                \<and> gc_callbacks w' (notify_guard_condition nd)
                    = (Some (associated_executor c), Some Push_event, Some (collector_this c)))
          \<and> (r \<noteq> RCL_RET_OK \<longrightarrow>
                out = Threw (Runtime_error ''Couldn't set node guard condition callback'')
                \<and> gc_callbacks w' = gc_callbacks w))"
proof (cases "associated_with_executor nd")
  case True
  with assms show ?thesis
    by (simp add: add_node_owned)
next
  case False
  with assms show ?thesis
    by (auto simp: add_node_fresh Let_def wire_def split: if_splits)
qed

text \<open>
  C9. For a live node whose ownership flag is not set, when the binding of the guard
  condition reports failure \<open>add_node\<close> throws the runtime error with nothing rolled back.
  The state that comes with the error has the flag set, the node appended to the tracked
  set and the node's entities wired: the live timers of its schedulable groups have joined
  the timers manager, and every subscription, service, client and waitable those groups
  list carries the executor's push-event callback. Only the guard condition is as before.
\<close>

theorem add_node_not_atomic:
  assumes "nodes w n = Some nd" and "\<not> associated_with_executor nd" and "r \<noteq> RCL_RET_OK"
  shows
    "\<exists>c' w'. add_node r n c w
        = (Threw (Runtime_error ''Couldn't set node guard condition callback''), c', w')
      \<and> weak_nodes c' = weak_nodes c @ [Some n]
      \<and> nodes w' n = Some (nd\<lparr>associated_with_executor := True\<rparr>)
      \<and> timers_manager c' = timers_manager c
           \<union> wired_timers (schedulable_groups w (callback_groups nd)) w
      \<and> subscriptions w' = assign_listener (push_event_of c)
           (listed_in subscription_ptrs (schedulable_groups w (callback_groups nd)))
           (subscriptions w)
      \<and> services w' = assign_listener (push_event_of c)
           (listed_in service_ptrs (schedulable_groups w (callback_groups nd))) (services w)
      \<and> clients w' = assign_listener (push_event_of c)
           (listed_in client_ptrs (schedulable_groups w (callback_groups nd))) (clients w)
      \<and> waitables w' = assign_listener (push_event_of c)
           (listed_in waitable_ptrs (schedulable_groups w (callback_groups nd))) (waitables w)
      \<and> gc_callbacks w' = gc_callbacks w"
proof -
  let ?G = "schedulable_groups w (callback_groups nd)"
  let ?c' = "c\<lparr>weak_nodes := weak_nodes c @ [Some n],
                timers_manager := timers_manager c \<union> wired_timers ?G w\<rparr>"
  let ?w' = "wire (push_event_of c) ?G
               (w\<lparr>nodes := (nodes w)(n \<mapsto> nd\<lparr>associated_with_executor := True\<rparr>)\<rparr>)"
  from assms have "add_node r n c w
      = (Threw (Runtime_error ''Couldn't set node guard condition callback''), ?c', ?w')"
    by (simp add: add_node_fresh Let_def)
  moreover have "weak_nodes ?c' = weak_nodes c @ [Some n]"
    and "timers_manager ?c' = timers_manager c \<union> wired_timers ?G w"
    by simp_all
  moreover have "nodes ?w' n = Some (nd\<lparr>associated_with_executor := True\<rparr>)"
    and "gc_callbacks ?w' = gc_callbacks w"
    by simp_all
  moreover have
    "subscriptions ?w' = assign_listener (push_event_of c) (listed_in subscription_ptrs ?G)
                           (subscriptions w)"
    "services ?w' = assign_listener (push_event_of c) (listed_in service_ptrs ?G) (services w)"
    "clients ?w' = assign_listener (push_event_of c) (listed_in client_ptrs ?G) (clients w)"
    "waitables ?w' = assign_listener (push_event_of c) (listed_in waitable_ptrs ?G) (waitables w)"
    by (simp_all add: wire_def)
  ultimately show ?thesis
    by blast
qed

theorem add_node_contract_witness:
  "nodes sample_world 1 = Some sample_node
   \<and> fst (add_node 0 1 collector_A sample_world) = Returned ()
   \<and> weak_nodes (fst (snd (add_node 0 1 collector_A sample_world))) = [Some 1]
   \<and> fst (add_node 0 1 collector_B wired_world)
        = Threw (Runtime_error ''Node has already been added to an executor.'')"
proof -
  have h1: "nodes sample_world 1 = Some sample_node"
    by (simp add: sample_world_def)
  have h2: "add_node 0 1 collector_A sample_world
              = (fst (add_node 0 1 collector_A sample_world),
                 fst (snd (add_node 0 1 collector_A sample_world)),
                 snd (snd (add_node 0 1 collector_A sample_world)))"
    by simp
  have k1: "nodes wired_world 1 = Some (sample_node\<lparr>associated_with_executor := True\<rparr>)"
    by (simp add: wired_world_def sample_world_def)
  have k2: "add_node 0 1 collector_B wired_world
              = (fst (add_node 0 1 collector_B wired_world),
                 fst (snd (add_node 0 1 collector_B wired_world)),
                 snd (snd (add_node 0 1 collector_B wired_world)))"
    by simp
  from add_node_contract [OF h1 h2] add_node_contract [OF k1 k2] h1 show ?thesis
    by (simp add: sample_node_def collector_A_def RCL_RET_OK_def)
qed

theorem add_node_not_atomic_witness:
  "nodes sample_world 1 = Some sample_node \<and> \<not> associated_with_executor sample_node
   \<and> (1::int) \<noteq> RCL_RET_OK
   \<and> fst (add_node 1 1 collector_A sample_world)
        = Threw (Runtime_error ''Couldn't set node guard condition callback'')
   \<and> weak_nodes (fst (snd (add_node 1 1 collector_A sample_world))) = [Some 1]
   \<and> map_option associated_with_executor (nodes (snd (snd (add_node 1 1 collector_A sample_world))) 1)
        = Some True
   \<and> timers_manager (fst (snd (add_node 1 1 collector_A sample_world))) = {200}
   \<and> map_option listener (subscriptions (snd (snd (add_node 1 1 collector_A sample_world))) 300)
        = Some (Some 901, Some Push_event)
   \<and> map_option listener (waitables (snd (snd (add_node 1 1 collector_A sample_world))) 600)
        = Some (Some 901, Some Push_event)
   \<and> map_option listener (subscriptions (snd (snd (add_node 1 1 collector_A sample_world))) 310)
        = Some (None, None)"
proof -
  have h1: "nodes sample_world 1 = Some sample_node"
    by (simp add: sample_world_def)
  have h2: "\<not> associated_with_executor sample_node"
    by (simp add: sample_node_def)
  have h3: "(1::int) \<noteq> RCL_RET_OK"
    by (simp add: RCL_RET_OK_def)
  have g: "schedulable_groups sample_world (callback_groups sample_node) = [enabled_group]"
    by (simp add: schedulable_groups_def sample_world_def sample_node_def lock_def
        enabled_group_def disabled_group_def)
  have wt: "wired_timers [enabled_group] sample_world = {200}"
    by (auto simp: wired_timers_def listed_in_def enabled_group_def sample_world_def)
  have l: "listed_in subscription_ptrs [enabled_group] 300"
          "\<not> listed_in subscription_ptrs [enabled_group] 310"
          "listed_in waitable_ptrs [enabled_group] 600"
    by (simp_all add: listed_in_def enabled_group_def)
  from add_node_not_atomic [OF h1 h2 h3, of collector_A, unfolded g wt]
  obtain c' w' where
    a: "add_node 1 1 collector_A sample_world
          = (Threw (Runtime_error ''Couldn't set node guard condition callback''), c', w')"
    and t: "weak_nodes c' = weak_nodes collector_A @ [Some 1]"
    and f: "nodes w' 1 = Some (sample_node\<lparr>associated_with_executor := True\<rparr>)"
    and tm: "timers_manager c' = timers_manager collector_A \<union> {200}"
    and su: "subscriptions w' = assign_listener (push_event_of collector_A)
               (listed_in subscription_ptrs [enabled_group]) (subscriptions sample_world)"
    and wa: "waitables w' = assign_listener (push_event_of collector_A)
               (listed_in waitable_ptrs [enabled_group]) (waitables sample_world)"
    by blast
  have su': "map_option listener (subscriptions w' 300) = Some (Some 901, Some Push_event)"
    "map_option listener (subscriptions w' 310) = Some (None, None)"
    unfolding su
    by (simp_all add: l assign_listener_def push_event_of_def collector_A_def sample_world_def
        sample_subscription_def)
  have wa': "map_option listener (waitables w' 600) = Some (Some 901, Some Push_event)"
    unfolding wa
    by (simp add: l assign_listener_def push_event_of_def collector_A_def sample_world_def
        idle_def)
  from t tm have "weak_nodes c' = [Some 1]" and "timers_manager c' = {200}"
    by (simp_all add: collector_A_def)
  with a f su' wa' h1 h2 h3 show ?thesis
    by simp
qed

lemma disassociate_nodes_eq:
  "disassociate_nodes ps w =
     w\<lparr>nodes := (\<lambda>n. if Some n \<in> set ps
                      then map_option (\<lambda>nd. nd\<lparr>associated_with_executor := False\<rparr>) (nodes w n)
                      else nodes w n)\<rparr>"
proof (induction ps arbitrary: w)
  case Nil
  then show ?case by simp
next
  case (Cons p ps)
  show ?case
  proof (cases "lock (nodes w) p")
    case None
    then have "(\<lambda>n. if Some n \<in> set (p # ps)
                      then map_option (\<lambda>nd. nd\<lparr>associated_with_executor := False\<rparr>) (nodes w n)
                      else nodes w n)
             = (\<lambda>n. if Some n \<in> set ps
                      then map_option (\<lambda>nd. nd\<lparr>associated_with_executor := False\<rparr>) (nodes w n)
                      else nodes w n)"
      by (auto simp: lock_None_iff fun_eq_iff)
    with None show ?thesis
      by (simp add: Cons.IH)
  next
    case (Some r)
    obtain node nd where r: "r = (node, nd)" by (cases r)
    with Some have p: "p = Some node" and nd: "nodes w node = Some nd"
      by (simp_all add: lock_Some_iff)
    let ?w1 = "w\<lparr>nodes := (nodes w)(node \<mapsto> nd\<lparr>associated_with_executor := False\<rparr>)\<rparr>"
    have "(\<lambda>n. if Some n \<in> set ps
                      then map_option (\<lambda>nd. nd\<lparr>associated_with_executor := False\<rparr>) (nodes ?w1 n)
                      else nodes ?w1 n)
             = (\<lambda>n. if Some n \<in> set (p # ps)
                      then map_option (\<lambda>nd. nd\<lparr>associated_with_executor := False\<rparr>) (nodes w n)
                      else nodes w n)"
      using p nd by (auto simp: fun_eq_iff)
    moreover have "disassociate_nodes (p # ps) w = disassociate_nodes ps ?w1"
      using Some r by simp
    ultimately show ?thesis
      by (simp add: Cons.IH)
  qed
qed

text \<open>
  C8. The destructor leaves the tracked set empty. Every tracked node that is still alive
  has its ownership flag set to false and is otherwise unchanged; a node that is gone stays
  gone and nothing is written for it; nodes the collector does not track, and everything in
  the world besides the nodes, are unchanged.
\<close>

theorem collector_destructor_disassociates:
  assumes "collector_destructor c w = (c', w')"
  shows
    "weak_nodes c' = []
     \<and> (\<forall>n nd. Some n \<in> set (weak_nodes c) \<longrightarrow> nodes w n = Some nd \<longrightarrow>
           nodes w' n = Some (nd\<lparr>associated_with_executor := False\<rparr>))
     \<and> (\<forall>n. nodes w n = None \<longrightarrow> nodes w' n = None)
     \<and> (\<forall>n. Some n \<notin> set (weak_nodes c) \<longrightarrow> nodes w' n = nodes w n)
     \<and> w' = w\<lparr>nodes := nodes w'\<rparr>"
  using assms
  by (auto simp: collector_destructor_def disassociate_nodes_eq)

theorem collector_destructor_disassociates_witness:
  "weak_nodes (fst (collector_destructor
      (collector_A_tracking) wired_world)) = []
   \<and> map_option associated_with_executor
        (nodes (snd (collector_destructor collector_A_tracking wired_world)) 1) = Some False
   \<and> nodes (snd (collector_destructor collector_A_tracking wired_world)) 2 = None"
proof -
  have h: "collector_destructor collector_A_tracking wired_world
             = (fst (collector_destructor collector_A_tracking wired_world),
                snd (collector_destructor collector_A_tracking wired_world))"
    by simp
  have t: "Some 1 \<in> set (weak_nodes collector_A_tracking)"
    by (simp add: collector_A_tracking_def)
  have n1: "nodes wired_world 1 = Some (sample_node\<lparr>associated_with_executor := True\<rparr>)"
    by (simp add: wired_world_def sample_world_def)
  have n2: "nodes wired_world 2 = None"
    by (simp add: wired_world_def sample_world_def)
  from collector_destructor_disassociates [OF h] t n1 n2 show ?thesis
    by simp
qed

lemma remove_node_from_absent:
  "nodes w n = Some nd \<Longrightarrow> Some n \<notin> set ps \<Longrightarrow>
   remove_node_from r n before ps c w = (Returned (), c, w)"
proof (induction ps arbitrary: before)
  case Nil
  then show ?case by simp
next
  case (Cons p ps)
  show ?case
  proof (cases "lock (nodes w) p")
    case None
    with Cons show ?thesis by auto
  next
    case (Some x)
    obtain node nd' where x: "x = (node, nd')" by (cases x)
    with Some have p: "p = Some node"
      by (simp add: lock_Some_iff)
    with Cons.prems have "node \<noteq> n" by auto
    with Some x Cons p show ?thesis by auto
  qed
qed

lemma remove_node_from_null:
  "nodes w n = None \<Longrightarrow> snd (remove_node_from r n before ps c w) = (c, w)"
proof (induction ps arbitrary: before)
  case Nil
  then show ?case by simp
next
  case (Cons p ps)
  show ?case
  proof (cases "lock (nodes w) p")
    case None
    with Cons.prems show ?thesis by simp
  next
    case (Some x)
    obtain node nd where x: "x = (node, nd)" by (cases x)
    with Some have "nodes w node = Some nd"
      by (simp add: lock_Some_iff)
    with Cons.prems have "node \<noteq> n" by auto
    with Some x Cons show ?thesis by simp
  qed
qed

lemma remove_node_from_tracked:
  assumes "nodes w n = Some nd"
  shows "Some n \<in> set ps \<Longrightarrow>
   remove_node_from r n before ps c w =
     (if r \<noteq> RCL_RET_OK
      then (Threw (Runtime_error ''Couldn't set guard condition callback''), c, w)
      else (Returned (),
            c\<lparr>timers_manager := timers_manager c
                  - wired_timers (schedulable_groups w (callback_groups nd)) w,
              weak_nodes := before @ remove1 (Some n) ps\<rparr>,
            (wire (None, None) (schedulable_groups w (callback_groups nd)) w)
              \<lparr>gc_callbacks := (gc_callbacks w)(notify_guard_condition nd := (None, None, None))\<rparr>))"
proof (induction ps arbitrary: before)
  case Nil
  then show ?case by simp
next
  case (Cons p ps)
  show ?case
  proof (cases "p = Some n")
    case True
    with assms have "lock (nodes w) p = Some (n, nd)"
      by (simp add: lock_Some_iff)
    with True show ?thesis
      by (simp add: rcl_guard_condition_set_events_executor_callback_def
          unset_entities_callbacks_groups_eq wire_gc_callbacks_update fun_upd_def)
  next
    case False
    with Cons.prems have in_ps: "Some n \<in> set ps" by simp
    from False have "lock (nodes w) p = None \<or> (\<exists>node x. lock (nodes w) p = Some (node, x) \<and> node \<noteq> n)"
      by (cases "lock (nodes w) p") (auto simp: lock_Some_iff)
    with assms have step: "remove_node_from r n before (p # ps) c w
                 = remove_node_from r n (before @ [p]) ps c w"
      by auto
    from False have "remove1 (Some n) (p # ps) = p # remove1 (Some n) ps"
      by auto
    then show ?thesis
      unfolding step Cons.IH [OF in_ps, of "before @ [p]"] by (simp add: fun_upd_def)
  qed
qed

text \<open>
  C10, as the code has it. For a live node that the collector tracks, \<open>remove_node\<close>
  touches only what the node's schedulable groups list (the groups whose weak pointer locks
  and whose "can be taken from" flag is set at removal time): a subscription, service,
  client or waitable that no such group lists keeps the callback it had, and a timer that no
  such group lists stays in the timers manager. So an entity listed only in groups whose
  flag is false stays wired. When the unbinding succeeds the call returns, exactly the
  entities and timers the schedulable groups list are unwired, and the node is erased from
  the tracked set. When the unbinding fails the call throws and neither the collector nor
  the world has changed: the node is still tracked.
\<close>

theorem remove_node_unwires_enabled_groups_only:
  assumes "nodes w n = Some nd" and "Some n \<in> set (weak_nodes c)"
    and "remove_node r n c w = (out, c', w')"
  shows
    "(\<forall>a. \<not> listed_in subscription_ptrs (schedulable_groups w (callback_groups nd)) a
          \<longrightarrow> subscriptions w' a = subscriptions w a)
     \<and> (\<forall>a. \<not> listed_in service_ptrs (schedulable_groups w (callback_groups nd)) a
          \<longrightarrow> services w' a = services w a)
     \<and> (\<forall>a. \<not> listed_in client_ptrs (schedulable_groups w (callback_groups nd)) a
          \<longrightarrow> clients w' a = clients w a)
     \<and> (\<forall>a. \<not> listed_in waitable_ptrs (schedulable_groups w (callback_groups nd)) a
          \<longrightarrow> waitables w' a = waitables w a)
     \<and> (\<forall>t \<in> timers_manager c.
           \<not> listed_in timer_ptrs (schedulable_groups w (callback_groups nd)) t
           \<longrightarrow> t \<in> timers_manager c')
     \<and> (r = RCL_RET_OK \<longrightarrow>
           out = Returned ()
           \<and> weak_nodes c' = remove1 (Some n) (weak_nodes c)
           \<and> timers_manager c' = timers_manager c
                - wired_timers (schedulable_groups w (callback_groups nd)) w
           \<and> w' = (wire (None, None) (schedulable_groups w (callback_groups nd)) w)
                     \<lparr>gc_callbacks :=
                        (gc_callbacks w)(notify_guard_condition nd := (None, None, None))\<rparr>)
     \<and> (r \<noteq> RCL_RET_OK \<longrightarrow>
           out = Threw (Runtime_error ''Couldn't set guard condition callback'')
           \<and> c' = c \<and> w' = w)"
proof (cases "r = RCL_RET_OK")
  case True
  with assms show ?thesis
    by (auto simp: remove_node_def remove_node_from_tracked wire_def assign_listener_def
        wired_timers_def)
next
  case False
  with assms show ?thesis
    by (auto simp: remove_node_def remove_node_from_tracked)
qed

theorem remove_node_unwires_enabled_groups_only_witness:
  "nodes wired_world 1 = Some (sample_node\<lparr>associated_with_executor := True\<rparr>)
   \<and> Some 1 \<in> set (weak_nodes collector_A_wired)
   \<and> fst (remove_node 0 1 collector_A_wired wired_world) = Returned ()
   \<and> weak_nodes (fst (snd (remove_node 0 1 collector_A_wired wired_world))) = []
   \<and> 210 \<in> timers_manager (fst (snd (remove_node 0 1 collector_A_wired wired_world)))
   \<and> subscriptions (snd (snd (remove_node 0 1 collector_A_wired wired_world))) 310
        = subscriptions wired_world 310
   \<and> remove_node 1 1 collector_A_wired wired_world
        = (Threw (Runtime_error ''Couldn't set guard condition callback''),
           collector_A_wired, wired_world)"
proof -
  have h1: "nodes wired_world 1 = Some (sample_node\<lparr>associated_with_executor := True\<rparr>)"
    by (simp add: wired_world_def sample_world_def)
  have h2: "Some 1 \<in> set (weak_nodes collector_A_wired)"
    by (simp add: collector_A_wired_def)
  have h3: "remove_node 0 1 collector_A_wired wired_world
              = (fst (remove_node 0 1 collector_A_wired wired_world),
                 fst (snd (remove_node 0 1 collector_A_wired wired_world)),
                 snd (snd (remove_node 0 1 collector_A_wired wired_world)))"
    by simp
  have h4: "remove_node 1 1 collector_A_wired wired_world
              = (fst (remove_node 1 1 collector_A_wired wired_world),
                 fst (snd (remove_node 1 1 collector_A_wired wired_world)),
                 snd (snd (remove_node 1 1 collector_A_wired wired_world)))"
    by simp
  have g: "schedulable_groups wired_world
             (callback_groups (sample_node\<lparr>associated_with_executor := True\<rparr>)) = [enabled_group]"
    by (simp add: schedulable_groups_def wired_world_def sample_world_def sample_node_def
        lock_def enabled_group_def disabled_group_def)
  have l: "\<not> listed_in subscription_ptrs [enabled_group] 310"
          "\<not> listed_in timer_ptrs [enabled_group] 210"
    by (simp_all add: listed_in_def enabled_group_def)
  have m: "210 \<in> timers_manager collector_A_wired"
    by (simp add: collector_A_wired_def)
  note t = remove_node_unwires_enabled_groups_only [OF h1 h2 h3, unfolded g]
  note u = remove_node_unwires_enabled_groups_only [OF h1 h2 h4]
  from t l have s: "subscriptions (snd (snd (remove_node 0 1 collector_A_wired wired_world))) 310
                      = subscriptions wired_world 310"
    by blast
  from t l m have k: "210 \<in> timers_manager (fst (snd (remove_node 0 1 collector_A_wired wired_world)))"
    by blast
  from t have e: "fst (remove_node 0 1 collector_A_wired wired_world) = Returned ()
        \<and> weak_nodes (fst (snd (remove_node 0 1 collector_A_wired wired_world)))
             = remove1 (Some 1) (weak_nodes collector_A_wired)"
    by (simp add: RCL_RET_OK_def)
  from u have "fst (remove_node 1 1 collector_A_wired wired_world)
                 = Threw (Runtime_error ''Couldn't set guard condition callback'')
               \<and> fst (snd (remove_node 1 1 collector_A_wired wired_world)) = collector_A_wired
               \<and> snd (snd (remove_node 1 1 collector_A_wired wired_world)) = wired_world"
    by (simp add: RCL_RET_OK_def)
  then have "remove_node 1 1 collector_A_wired wired_world
        = (Threw (Runtime_error ''Couldn't set guard condition callback''),
           collector_A_wired, wired_world)"
    by (simp add: prod_eq_iff)
  with h1 h2 s k e show ?thesis
    by (simp add: collector_A_wired_def)
qed

text \<open>
  C10 as stated fails in two places. In the shared world the disabled group 101 of node 1
  lists subscription 300 and timer 200, which the enabled group 100 lists too:
  \<open>remove_node\<close> clears the callback of 300 and takes 200 out of the timers manager, so they
  do not keep their wiring. And when the unbinding fails, \<open>remove_node\<close> throws and the
  node is not erased from the tracked set.
\<close>

theorem remove_node_shared_entity_counterexample:
  "map_option can_be_taken_from (groups shared_world 101) = Some False
   \<and> Some 101 \<in> set (callback_groups (sample_node\<lparr>associated_with_executor := True\<rparr>))
   \<and> nodes shared_world 1 = Some (sample_node\<lparr>associated_with_executor := True\<rparr>)
   \<and> map_option subscription_ptrs (groups shared_world 101) = Some [Some 310, Some 300]
   \<and> map_option timer_ptrs (groups shared_world 101) = Some [Some 210, Some 200]
   \<and> map_option listener (subscriptions shared_world 300) = Some (Some 901, Some Push_event)
   \<and> 200 \<in> timers_manager collector_A_wired
   \<and> fst (remove_node RCL_RET_OK 1 collector_A_wired shared_world) = Returned ()
   \<and> map_option listener
        (subscriptions (snd (snd (remove_node RCL_RET_OK 1 collector_A_wired shared_world))) 300)
        = Some (None, None)
   \<and> 200 \<notin> timers_manager (fst (snd (remove_node RCL_RET_OK 1 collector_A_wired shared_world)))
   \<and> weak_nodes (fst (snd (remove_node 1 1 collector_A_wired shared_world))) = [Some 1]"
  by (simp add: shared_world_def fixtures collector_code)

lemma add_node_returned:
  assumes "add_node r n c w = (Returned (), c', w')"
  shows "\<exists>nd. nodes w n = Some nd \<and> \<not> associated_with_executor nd \<and> r = RCL_RET_OK
           \<and> nodes w' n = Some (nd\<lparr>associated_with_executor := True\<rparr>)
           \<and> weak_nodes c' = weak_nodes c @ [Some n]"
proof (cases "nodes w n")
  case None
  with assms show ?thesis
    by (simp add: add_node_def)
next
  case (Some nd)
  show ?thesis
  proof (cases "associated_with_executor nd")
    case True
    with Some assms show ?thesis
      by (simp add: add_node_owned)
  next
    case False
    with Some assms show ?thesis
      by (auto simp: add_node_fresh Let_def split: if_splits)
  qed
qed

lemma executor_remove_node_tracked:
  assumes "nodes w n = Some nd" and "Some n \<in> set (weak_nodes c)"
  shows "executor_remove_node r n c w =
     (if r \<noteq> RCL_RET_OK
      then (Threw (Runtime_error ''Couldn't set guard condition callback''), c, w)
      else (Returned (),
            c\<lparr>timers_manager := timers_manager c
                  - wired_timers (schedulable_groups w (callback_groups nd)) w,
              weak_nodes := remove1 (Some n) (weak_nodes c)\<rparr>,
            (wire (None, None) (schedulable_groups w (callback_groups nd)) w)
              \<lparr>gc_callbacks := (gc_callbacks w)(notify_guard_condition nd := (None, None, None)),
               nodes := (nodes w)(n \<mapsto> nd\<lparr>associated_with_executor := False\<rparr>)\<rparr>))"
  using assms
  by (simp add: executor_remove_node_def remove_node_def remove_node_from_tracked)

text \<open>
  C1. Let \<open>add_node\<close> on executor A have succeeded for a unit. Then \<open>remove_node\<close> on A
  for that unit returns whenever its unbinding of the guard condition succeeds, and once it
  has returned the unit's ownership flag is false again: \<open>add_node\<close> of the same unit on any
  executor B does not fail with the "already added" error, and it succeeds when B's binding
  of the guard condition does.
\<close>

theorem executor_remove_then_add_elsewhere:
  assumes "executor_add_node r1 n A w = (Returned (), A1, w1)"
  shows
    "(r2 = RCL_RET_OK \<longrightarrow> fst (executor_remove_node r2 n A1 w1) = Returned ())
     \<and> (\<forall>A2 w2. executor_remove_node r2 n A1 w1 = (Returned (), A2, w2) \<longrightarrow>
           (\<exists>nd. nodes w2 n = Some nd \<and> \<not> associated_with_executor nd)
           \<and> fst (executor_add_node r3 n B w2)
                \<noteq> Threw (Runtime_error ''Node has already been added to an executor.'')
           \<and> (r3 = RCL_RET_OK \<longrightarrow> fst (executor_add_node r3 n B w2) = Returned ()))"
proof -
  from assms obtain nd where
    n1: "nodes w1 n = Some (nd\<lparr>associated_with_executor := True\<rparr>)"
    and tr: "Some n \<in> set (weak_nodes A1)"
    using add_node_returned [of r1 n A w A1 w1]
    by (auto simp: executor_add_node_def)
  note rm = executor_remove_node_tracked [OF n1 tr, of r2]
  have first: "r2 = RCL_RET_OK \<longrightarrow> fst (executor_remove_node r2 n A1 w1) = Returned ()"
    using rm by auto
  have second: "(\<exists>nd. nodes w2 n = Some nd \<and> \<not> associated_with_executor nd)
           \<and> fst (executor_add_node r3 n B w2)
                \<noteq> Threw (Runtime_error ''Node has already been added to an executor.'')
           \<and> (r3 = RCL_RET_OK \<longrightarrow> fst (executor_add_node r3 n B w2) = Returned ())"
    if "executor_remove_node r2 n A1 w1 = (Returned (), A2, w2)" for A2 w2
  proof -
    from that rm have f: "nodes w2 n = Some (nd\<lparr>associated_with_executor := False\<rparr>)"
      by (auto split: if_splits)
    have g: "\<not> associated_with_executor (nd\<lparr>associated_with_executor := False\<rparr>)"
      by simp
    from add_node_fresh [OF f g, of r3 B] f show ?thesis
      by (auto simp: executor_add_node_def Let_def)
  qed
  from first second show ?thesis
    by blast
qed

theorem executor_remove_then_add_elsewhere_witness:
  "fst after_add_on_A = Returned ()
   \<and> fst after_remove_on_A = Returned ()
   \<and> map_option associated_with_executor (nodes (snd (snd after_remove_on_A)) 1) = Some False
   \<and> fst (executor_add_node RCL_RET_OK 1 collector_B (snd (snd after_remove_on_A)))
        = Returned ()"
proof -
  have h1: "nodes sample_world 1 = Some sample_node"
    by (simp add: sample_world_def)
  have h2: "\<not> associated_with_executor sample_node"
    by (simp add: sample_node_def)
  have r: "fst after_add_on_A = Returned ()"
    using h1 h2 by (simp add: after_add_on_A_def executor_add_node_def add_node_fresh Let_def)
  then have a: "executor_add_node RCL_RET_OK 1 collector_A sample_world
              = (Returned (), fst (snd after_add_on_A), snd (snd after_add_on_A))"
    by (simp add: after_add_on_A_def prod_eq_iff)
  note t = executor_remove_then_add_elsewhere [OF a, of RCL_RET_OK RCL_RET_OK collector_B]
  from t have rr: "fst after_remove_on_A = Returned ()"
    by (simp add: after_remove_on_A_def)
  then have b: "executor_remove_node RCL_RET_OK 1 (fst (snd after_add_on_A))
                  (snd (snd after_add_on_A))
                = (Returned (), fst (snd after_remove_on_A), snd (snd after_remove_on_A))"
    by (simp add: after_remove_on_A_def prod_eq_iff)
  from t [THEN conjunct2, THEN spec, THEN spec, THEN mp, OF b]
  have "(\<exists>nd. nodes (snd (snd after_remove_on_A)) 1 = Some nd \<and> \<not> associated_with_executor nd)
        \<and> fst (executor_add_node RCL_RET_OK 1 collector_B (snd (snd after_remove_on_A)))
             = Returned ()"
    by simp
  with r rr show ?thesis
    by auto
qed

section \<open>Properties of attaching publishers and subscriptions\<close>

lemma add_event_handlers_eq:
  "groups w g = Some grp \<Longrightarrow>
   add_event_handlers g hs w =
     Some (w\<lparr>groups := (groups w)(g \<mapsto> grp\<lparr>waitable_ptrs := waitable_ptrs grp @ map Some hs\<rparr>)\<rparr>)"
proof (induction hs arbitrary: w grp)
  case Nil
  then show ?case by (simp add: map_upd_triv)
next
  case (Cons h hs)
  let ?grp1 = "grp\<lparr>waitable_ptrs := waitable_ptrs grp @ [Some h]\<rparr>"
  let ?w1 = "w\<lparr>groups := (groups w)(g \<mapsto> ?grp1)\<rparr>"
  from Cons.prems have a: "add_waitable g (Some h) w = Some ?w1"
    by (simp add: add_waitable_def)
  have g1: "groups ?w1 g = Some ?grp1"
    by simp
  have "add_event_handlers g (h # hs) w = add_event_handlers g hs ?w1"
    using a by simp
  also have "\<dots> = Some (?w1\<lparr>groups := (groups ?w1)(g \<mapsto>
                         ?grp1\<lparr>waitable_ptrs := waitable_ptrs ?grp1 @ map Some hs\<rparr>)\<rparr>)"
    by (rule Cons.IH [OF g1])
  also have "?w1\<lparr>groups := (groups ?w1)(g \<mapsto>
                         ?grp1\<lparr>waitable_ptrs := waitable_ptrs ?grp1 @ map Some hs\<rparr>)\<rparr>
               = w\<lparr>groups := (groups w)(g \<mapsto>
                         grp\<lparr>waitable_ptrs := waitable_ptrs grp @ map Some (h # hs)\<rparr>)\<rparr>"
    by simp
  finally show ?case .
qed

lemma add_publisher_not_in_node:
  assumes "nodes w nb = Some nd" and "\<not> callback_group_in_node w nd g"
  shows "add_publisher r err nb p (Some g) w
           = (Threw (Runtime_error ''Cannot create publisher, callback group not in node.''), w)"
  using assms by (simp add: add_publisher_def)

lemma add_subscription_not_in_node:
  assumes "nodes w nb = Some nd" and "\<not> callback_group_in_node w nd g"
  shows "add_subscription r err nb s (Some g) ipc w
           = (Threw (Runtime_error ''Cannot create subscription, callback group not in node.''), w)"
  using assms by (simp add: add_subscription_def)

lemma add_publisher_assigned:
  assumes "nodes w nb = Some nd"
    and "cg = None \<and> g = default_callback_group nd \<or> cg = Some g \<and> callback_group_in_node w nd g"
    and "groups w g = Some grp" and "publishers w p = Some pb"
  shows "add_publisher r err nb p cg w =
     (if r = RCL_RET_OK then Returned ()
      else Threw (Runtime_error (''Failed to notify wait set on publisher creation: '' @ err)),
      w\<lparr>groups := (groups w)(g \<mapsto>
            grp\<lparr>waitable_ptrs := waitable_ptrs grp @ map Some (publisher_event_handlers pb)\<rparr>),
        gc_triggers :=
          (if r = RCL_RET_OK
           then (gc_triggers w)(notify_guard_condition nd :=
                   Suc (gc_triggers w (notify_guard_condition nd)))
           else gc_triggers w)\<rparr>)"
  using assms
  by (auto simp: add_publisher_def add_event_handlers_eq rcl_trigger_guard_condition_def)

lemma add_subscription_assigned:
  assumes "nodes w nb = Some nd"
    and "cg = None \<and> g = default_callback_group nd \<or> cg = Some g \<and> callback_group_in_node w nd g"
    and "groups w g = Some grp" and "subscriptions w s = Some sb"
  shows "add_subscription r err nb s cg ipc w =
     (if r = RCL_RET_OK then Returned ()
      else Threw (Runtime_error (''Failed to notify wait set on subscription creation: '' @ err)),
      w\<lparr>groups := (groups w)(g \<mapsto>
            grp\<lparr>subscription_ptrs := subscription_ptrs grp @ [Some s],
                waitable_ptrs := waitable_ptrs grp @ map Some (subscription_event_handlers sb)
                  @ (if ipc then [get_subscription_intra_process (ipm w)
                                    (intra_process_subscription_id sb)]
                     else [])\<rparr>),
        gc_triggers :=
          (if r = RCL_RET_OK
           then (gc_triggers w)(notify_guard_condition nd :=
                   Suc (gc_triggers w (notify_guard_condition nd)))
           else gc_triggers w)\<rparr>)"
  using assms
  by (auto simp: add_subscription_def group_add_subscription_def add_event_handlers_eq
      add_waitable_def rcl_trigger_guard_condition_def)

text \<open>
  C6. For a live owning node: an explicit callback group that the node does not hold makes
  \<open>add_publisher\<close> and \<open>add_subscription\<close> throw their "callback group not in node"
  runtime error with the world unchanged. Otherwise the group is the explicit one or, for a
  null group, the node's default group; the endpoint's event handlers are appended to the
  group's waitables (\<open>add_subscription\<close> first appends the subscription itself and, when
  intra-process is used, appends last the object the intra-process manager returns for the
  subscription's id); then the node's guard condition is triggered: the call returns when
  the trigger succeeds and otherwise throws a runtime error whose message ends with the
  transport's error text, the registrations made before staying in place.
\<close>

theorem add_publisher_add_subscription_contract:
  assumes "nodes w nb = Some nd"
  shows
    "(\<forall>g. \<not> callback_group_in_node w nd g \<longrightarrow>
         add_publisher r err nb p (Some g) w
           = (Threw (Runtime_error ''Cannot create publisher, callback group not in node.''), w)
         \<and> add_subscription r err nb s (Some g) ipc w
           = (Threw (Runtime_error ''Cannot create subscription, callback group not in node.''), w))
     \<and> (\<forall>g grp.
          (cg = None \<and> g = default_callback_group nd
             \<or> cg = Some g \<and> callback_group_in_node w nd g)
          \<longrightarrow> groups w g = Some grp \<longrightarrow>
          (\<forall>pb. publishers w p = Some pb \<longrightarrow>
             add_publisher r err nb p cg w =
               (if r = RCL_RET_OK then Returned ()
                else Threw (Runtime_error
                       (''Failed to notify wait set on publisher creation: '' @ err)),
                w\<lparr>groups := (groups w)(g \<mapsto>
                      grp\<lparr>waitable_ptrs := waitable_ptrs grp
                             @ map Some (publisher_event_handlers pb)\<rparr>),
                  gc_triggers :=
                    (if r = RCL_RET_OK
                     then (gc_triggers w)(notify_guard_condition nd :=
                             Suc (gc_triggers w (notify_guard_condition nd)))
                     else gc_triggers w)\<rparr>))
          \<and> (\<forall>sb. subscriptions w s = Some sb \<longrightarrow>
             add_subscription r err nb s cg ipc w =
               (if r = RCL_RET_OK then Returned ()
                else Threw (Runtime_error
                       (''Failed to notify wait set on subscription creation: '' @ err)),
                w\<lparr>groups := (groups w)(g \<mapsto>
                      grp\<lparr>subscription_ptrs := subscription_ptrs grp @ [Some s],
                          waitable_ptrs := waitable_ptrs grp
                            @ map Some (subscription_event_handlers sb)
                            @ (if ipc then [get_subscription_intra_process (ipm w)
                                              (intra_process_subscription_id sb)]
                               else [])\<rparr>),
                  gc_triggers :=
                    (if r = RCL_RET_OK
                     then (gc_triggers w)(notify_guard_condition nd :=
                             Suc (gc_triggers w (notify_guard_condition nd)))
                     else gc_triggers w)\<rparr>)))"
proof (intro conjI allI impI)
  fix g
  assume "\<not> callback_group_in_node w nd g"
  with assms show "add_publisher r err nb p (Some g) w
      = (Threw (Runtime_error ''Cannot create publisher, callback group not in node.''), w)"
    by (rule add_publisher_not_in_node)
next
  fix g
  assume "\<not> callback_group_in_node w nd g"
  with assms show "add_subscription r err nb s (Some g) ipc w
      = (Threw (Runtime_error ''Cannot create subscription, callback group not in node.''), w)"
    by (rule add_subscription_not_in_node)
next
  fix g grp pb
  assume "cg = None \<and> g = default_callback_group nd
            \<or> cg = Some g \<and> callback_group_in_node w nd g"
    and "groups w g = Some grp" and "publishers w p = Some pb"
  with assms show "add_publisher r err nb p cg w =
               (if r = RCL_RET_OK then Returned ()
                else Threw (Runtime_error
                       (''Failed to notify wait set on publisher creation: '' @ err)),
                w\<lparr>groups := (groups w)(g \<mapsto>
                      grp\<lparr>waitable_ptrs := waitable_ptrs grp
                             @ map Some (publisher_event_handlers pb)\<rparr>),
                  gc_triggers :=
                    (if r = RCL_RET_OK
                     then (gc_triggers w)(notify_guard_condition nd :=
                             Suc (gc_triggers w (notify_guard_condition nd)))
                     else gc_triggers w)\<rparr>)"
    by (rule add_publisher_assigned)
next
  fix g grp sb
  assume "cg = None \<and> g = default_callback_group nd
            \<or> cg = Some g \<and> callback_group_in_node w nd g"
    and "groups w g = Some grp" and "subscriptions w s = Some sb"
  with assms show "add_subscription r err nb s cg ipc w =
               (if r = RCL_RET_OK then Returned ()
                else Threw (Runtime_error
                       (''Failed to notify wait set on subscription creation: '' @ err)),
                w\<lparr>groups := (groups w)(g \<mapsto>
                      grp\<lparr>subscription_ptrs := subscription_ptrs grp @ [Some s],
                          waitable_ptrs := waitable_ptrs grp
                            @ map Some (subscription_event_handlers sb)
                            @ (if ipc then [get_subscription_intra_process (ipm w)
                                              (intra_process_subscription_id sb)]
                               else [])\<rparr>),
                  gc_triggers :=
                    (if r = RCL_RET_OK
                     then (gc_triggers w)(notify_guard_condition nd :=
                             Suc (gc_triggers w (notify_guard_condition nd)))
                     else gc_triggers w)\<rparr>)"
    by (rule add_subscription_assigned)
qed

theorem add_publisher_add_subscription_contract_witness:
  "nodes world_with_publisher 1 = Some sample_node
   \<and> fst (add_publisher RCL_RET_OK ''none'' 1 10 None world_with_publisher) = Returned ()
   \<and> map_option waitable_ptrs
        (groups (snd (add_publisher RCL_RET_OK ''none'' 1 10 None world_with_publisher)) 100)
        = Some [Some 600, Some 640]
   \<and> gc_triggers (snd (add_publisher RCL_RET_OK ''none'' 1 10 None world_with_publisher)) 50 = 1
   \<and> fst (add_publisher 1 ''no wait set'' 1 10 None world_with_publisher)
        = Threw (Runtime_error
            (''Failed to notify wait set on publisher creation: '' @ ''no wait set''))
   \<and> fst (add_publisher RCL_RET_OK ''none'' 1 10 (Some 102) world_with_publisher)
        = Threw (Runtime_error ''Cannot create publisher, callback group not in node.'')
   \<and> map_option waitable_ptrs
        (groups (snd (add_subscription RCL_RET_OK ''none'' 1 310 (Some 101) True
                        world_with_publisher)) 101)
        = Some [Some 610, Some 630, Some 620]"
proof -
  have n: "nodes world_with_publisher 1 = Some sample_node"
    by (simp add: world_with_publisher_def sample_world_def)
  have d: "default_callback_group sample_node = 100"
    by (simp add: sample_node_def)
  have g100: "groups world_with_publisher 100 = Some enabled_group"
    and g101: "groups world_with_publisher 101 = Some disabled_group"
    by (simp_all add: world_with_publisher_def sample_world_def)
  have pb: "publishers world_with_publisher 10 = Some sample_publisher"
    by (simp add: world_with_publisher_def)
  have sb: "subscriptions world_with_publisher 310 = Some sample_subscription"
    by (simp add: world_with_publisher_def sample_world_def)
  have in101: "callback_group_in_node world_with_publisher sample_node 101"
    and out102: "\<not> callback_group_in_node world_with_publisher sample_node 102"
    by (simp_all add: callback_group_in_node_def lock_def world_with_publisher_def
        sample_world_def sample_node_def)
  note c = add_publisher_add_subscription_contract [OF n]
  have p1: "add_publisher RCL_RET_OK ''none'' 1 10 None world_with_publisher =
      (Returned (),
       world_with_publisher\<lparr>groups := (groups world_with_publisher)(100 \<mapsto>
            enabled_group\<lparr>waitable_ptrs := waitable_ptrs enabled_group
                             @ map Some (publisher_event_handlers sample_publisher)\<rparr>),
          gc_triggers := (gc_triggers world_with_publisher)(notify_guard_condition sample_node :=
                             Suc (gc_triggers world_with_publisher
                                    (notify_guard_condition sample_node)))\<rparr>)"
    using c [of RCL_RET_OK "''none''" 10 _ _ None, THEN conjunct2, THEN spec, THEN spec,
             THEN mp, THEN mp, THEN conjunct1, THEN spec, THEN mp, of 100 enabled_group
             sample_publisher] d g100 pb
    by simp
  have p2: "add_publisher 1 ''no wait set'' 1 10 None world_with_publisher =
      (Threw (Runtime_error
            (''Failed to notify wait set on publisher creation: '' @ ''no wait set'')),
       world_with_publisher\<lparr>groups := (groups world_with_publisher)(100 \<mapsto>
            enabled_group\<lparr>waitable_ptrs := waitable_ptrs enabled_group
                             @ map Some (publisher_event_handlers sample_publisher)\<rparr>),
          gc_triggers := gc_triggers world_with_publisher\<rparr>)"
    using c [of 1 "''no wait set''" 10 _ _ None, THEN conjunct2, THEN spec, THEN spec,
             THEN mp, THEN mp, THEN conjunct1, THEN spec, THEN mp, of 100 enabled_group
             sample_publisher] d g100 pb
    by (simp add: RCL_RET_OK_def)
  have p3: "add_publisher RCL_RET_OK ''none'' 1 10 (Some 102) world_with_publisher
        = (Threw (Runtime_error ''Cannot create publisher, callback group not in node.''),
           world_with_publisher)"
    using c [of RCL_RET_OK "''none''" 10, THEN conjunct1, THEN spec, THEN mp, THEN conjunct1,
             OF out102] .
  have s1: "add_subscription RCL_RET_OK ''none'' 1 310 (Some 101) True world_with_publisher =
      (Returned (),
       world_with_publisher\<lparr>groups := (groups world_with_publisher)(101 \<mapsto>
            disabled_group\<lparr>subscription_ptrs := subscription_ptrs disabled_group @ [Some 310],
               waitable_ptrs := waitable_ptrs disabled_group
                 @ map Some (subscription_event_handlers sample_subscription)
                 @ [get_subscription_intra_process (ipm world_with_publisher)
                      (intra_process_subscription_id sample_subscription)]\<rparr>),
          gc_triggers := (gc_triggers world_with_publisher)(notify_guard_condition sample_node :=
                             Suc (gc_triggers world_with_publisher
                                    (notify_guard_condition sample_node)))\<rparr>)"
    using c [of RCL_RET_OK "''none''" _ 310 True "Some 101", THEN conjunct2, THEN spec, THEN spec,
             THEN mp, THEN mp, THEN conjunct2, THEN spec, THEN mp, of 101 disabled_group
             sample_subscription] in101 g101 sb
    by simp
  show ?thesis
    unfolding p1 p2 p3 s1 using n
    by (simp add: fixtures world_with_publisher_def get_subscription_intra_process_def)
qed

end
